theory Spec2Isabelle
  imports Main
begin

section \<open>Python values, dictionaries and exceptions\<close>

text \<open>
  The module \<^verbatim>\<open>myst_nb/sphinx_.py\<close> works on JSON-like notebook metadata, on
  docutils nodes and on the Sphinx build environment. Metadata values are modelled by
  \<open>pyval\<close> (JSON without floating point numbers); a Python \<^verbatim>\<open>dict\<close> with string keys
  is an association list in insertion order, read with \<open>map_of\<close>.
\<close>

datatype pyval =
    PNone
  | PBool bool
  | PInt int
  | PStr string
  | PList "pyval list"
  | PDict "(string \<times> pyval) list"

type_synonym pydict = "(string \<times> pyval) list"

text \<open>Exceptions the module can raise or let through.\<close>

datatype error =
    KeyError string
  | TypeError
  | AttributeError string
  | AssertionError

text \<open>\<^verbatim>\<open>d.get(k, default)\<close>, \<^verbatim>\<open>d[k]\<close>, \<^verbatim>\<open>d[k] = v\<close> and \<^verbatim>\<open>d.pop(k, None)\<close> on a dict.\<close>

definition dict_get :: "pydict \<Rightarrow> string \<Rightarrow> pyval \<Rightarrow> pyval" where
  "dict_get d k dflt = (case map_of d k of None \<Rightarrow> dflt | Some v \<Rightarrow> v)"

definition dict_item :: "pydict \<Rightarrow> string \<Rightarrow> error + pyval" where
  "dict_item d k = (case map_of d k of None \<Rightarrow> Inl (KeyError k) | Some v \<Rightarrow> Inr v)"

fun dict_set :: "pydict \<Rightarrow> string \<Rightarrow> pyval \<Rightarrow> pydict" where
  "dict_set [] k v = [(k, v)]"
| "dict_set ((k', v') # d) k v = (if k' = k then (k, v) # d else (k', v') # dict_set d k v)"

definition dict_pop :: "pydict \<Rightarrow> string \<Rightarrow> pydict" where
  "dict_pop d k = filter (\<lambda>kv. fst kv \<noteq> k) d"

text \<open>
  \<^verbatim>\<open>s in x\<close> for a string \<open>s\<close>: key membership in a dict, element membership in a
  list, substring test in a string, and a \<^verbatim>\<open>TypeError\<close> for a value that is not a
  container.
\<close>

fun is_prefix_of :: "string \<Rightarrow> string \<Rightarrow> bool" where
  "is_prefix_of [] ys = True"
| "is_prefix_of (x # xs) [] = False"
| "is_prefix_of (x # xs) (y # ys) = (x = y \<and> is_prefix_of xs ys)"

fun is_substring :: "string \<Rightarrow> string \<Rightarrow> bool" where
  "is_substring s [] = (s = [])"
| "is_substring s (c # cs) = (is_prefix_of s (c # cs) \<or> is_substring s cs)"

fun py_in :: "string \<Rightarrow> pyval \<Rightarrow> error + bool" where
  "py_in s (PDict d) = Inr (s \<in> fst ` set d)"
| "py_in s (PList xs) = Inr (PStr s \<in> set xs)"
| "py_in s (PStr t) = Inr (is_substring s t)"
| "py_in s PNone = Inl TypeError"
| "py_in s (PBool b) = Inl TypeError"
| "py_in s (PInt i) = Inl TypeError"

text \<open>\<^verbatim>\<open>x[k]\<close> for a string \<open>k\<close>: only a dict can be subscripted by a string.\<close>

fun py_item :: "pyval \<Rightarrow> string \<Rightarrow> error + pyval" where
  "py_item (PDict d) k = dict_item d k"
| "py_item v k = Inl TypeError"

text \<open>Truth value of a Python object, as \<^verbatim>\<open>or\<close>, \<^verbatim>\<open>and\<close>, \<^verbatim>\<open>not\<close> and \<^verbatim>\<open>if\<close> test it.\<close>

fun truthy :: "pyval \<Rightarrow> bool" where
  "truthy PNone = False"
| "truthy (PBool b) = b"
| "truthy (PInt i) = (i \<noteq> 0)"
| "truthy (PStr s) = (s \<noteq> [])"
| "truthy (PList xs) = (xs \<noteq> [])"
| "truthy (PDict d) = (d \<noteq> [])"

text \<open>
  Iterating over a Python value (\<^verbatim>\<open>for x in v\<close>): the elements of a list, the keys of
  a dict, the characters of a string, and a \<^verbatim>\<open>TypeError\<close> for anything else.
\<close>

fun py_iter :: "pyval \<Rightarrow> error + pyval list" where
  "py_iter (PList xs) = Inr xs"
| "py_iter (PDict d) = Inr (map (\<lambda>kv. PStr (fst kv)) d)"
| "py_iter (PStr s) = Inr (map (\<lambda>c. PStr [c]) s)"
| "py_iter v = Inl TypeError"

text \<open>\<^verbatim>\<open>xs.index(x)\<close>: the first position of \<open>x\<close>, \<open>None\<close> for the \<^verbatim>\<open>ValueError\<close>.\<close>

fun list_index :: "'a list \<Rightarrow> 'a \<Rightarrow> nat option" where
  "list_index [] x = None"
| "list_index (y # ys) x =
     (if y = x then Some 0 else (case list_index ys x of None \<Rightarrow> None | Some i \<Rightarrow> Some (Suc i)))"

section \<open>Document trees\<close>

text \<open>
  A docutils node is an element with a class (its tag name, \<open>''container''\<close> for
  \<^verbatim>\<open>nodes.container\<close>), an attribute dictionary and ordered children, or a text leaf.
  Source positions (\<^verbatim>\<open>node.line\<close>, \<^verbatim>\<open>node.source\<close>) are not part of the model.
  The tree is a value: \<^verbatim>\<open>node.parent\<close> is the element in whose child list the node
  stands. In docutils this is so as long as no child of a mime bundle is itself a mime
  bundle (\<open>well_formed\<close> below; the renderer builds only such trees), and the
  statements about the transform on a whole tree are made for such trees.
\<close>

datatype node =
    Element (tagname: string) (attributes: pydict) (children: "node list")
  | Text string
where
  "tagname (Text s) = ''#text''"
| "attributes (Text s) = []"
| "children (Text s) = []"

datatype document = Document (doc_attributes: pydict) (doc_children: "node list")

text \<open>Constructors and mutators of docutils that the module calls.\<close>

definition container :: "pydict \<Rightarrow> node" where
  "container attrs = Element ''container'' attrs []"

fun node_extend :: "node \<Rightarrow> node list \<Rightarrow> node" where
  "node_extend (Element t a ks) ns = Element t a (ks @ ns)"
| "node_extend (Text s) ns = Text s"

definition node_append :: "node \<Rightarrow> node \<Rightarrow> node" where
  "node_append n c = node_extend n [c]"

text \<open>\<^verbatim>\<open>node[key]\<close>: the attribute of an element; a text node is a Python string.\<close>

fun node_item :: "node \<Rightarrow> string \<Rightarrow> error + pyval" where
  "node_item (Element t a ks) k = dict_item a k"
| "node_item (Text s) k = Inl TypeError"

subsection \<open>Replacing a node by others (docutils)\<close>

text \<open>
  \<^verbatim>\<open>node.replace_self(new)\<close> of docutils, for a list \<open>new\<close>, does more than put the
  list in the place of the node. When the first node of the list is an element, it
  receives the values of the node's basic attributes (\<^verbatim>\<open>update_basic_atts\<close>, through
  \<^verbatim>\<open>append_attr_list\<close>: each value the element does not have yet is appended); when
  it is a text node, or the list is empty, docutils asserts that the node has no
  non-empty basic attribute. docutils keeps a list under each of these keys in every
  element; a missing key is read as the empty list here.
\<close>

definition basic_attributes :: "string list" where
  "basic_attributes = [''ids'', ''classes'', ''names'', ''dupnames'']"

fun append_new :: "pyval list \<Rightarrow> pyval list \<Rightarrow> pyval list" where
  "append_new xs [] = xs"
| "append_new xs (v # vs) = append_new (if v \<in> set xs then xs else xs @ [v]) vs"

definition append_attr_list :: "pydict \<Rightarrow> string \<Rightarrow> pyval \<Rightarrow> error + pydict" where
  "append_attr_list attrs attr vals =
     (case py_iter vals of
        Inl e \<Rightarrow> Inl e
      | Inr vs \<Rightarrow>
          if vs = [] then Inr attrs
          else (case dict_get attrs attr (PList []) of
                  PList xs \<Rightarrow> Inr (dict_set attrs attr (PList (append_new xs vs)))
                | v \<Rightarrow> Inl TypeError))"

fun update_basic_atts_from :: "string list \<Rightarrow> pydict \<Rightarrow> pydict \<Rightarrow> error + pydict" where
  "update_basic_atts_from [] attrs dict = Inr attrs"
| "update_basic_atts_from (att # atts) attrs dict =
     (case append_attr_list attrs att (dict_get dict att (PList [])) of
        Inl e \<Rightarrow> Inl e
      | Inr attrs' \<Rightarrow> update_basic_atts_from atts attrs' dict)"

definition update_basic_atts :: "pydict \<Rightarrow> pydict \<Rightarrow> error + pydict" where
  "update_basic_atts attrs dict = update_basic_atts_from basic_attributes attrs dict"

text \<open>Some basic attribute of the node is not empty: the assertion of docutils fails.\<close>

definition loses_attribute :: "node \<Rightarrow> bool" where
  "loses_attribute n =
     list_ex (\<lambda>att. truthy (dict_get (attributes n) att (PList []))) basic_attributes"

text \<open>
  \<open>replace_self n new\<close>: the nodes that stand in the parent in the place of \<open>n\<close>
  afterwards, or the exception.
\<close>

fun replace_self :: "node \<Rightarrow> node list \<Rightarrow> error + node list" where
  "replace_self n (Element t a ks # rest) =
     (case update_basic_atts a (attributes n) of
        Inl e \<Rightarrow> Inl e
      | Inr a' \<Rightarrow> Inr (Element t a' ks # rest))"
| "replace_self n new = (if loses_attribute n then Inl AssertionError else Inr new)"

text \<open>
  The node carries no basic attribute, as a container made by
  \<^verbatim>\<open>nodes.container(nb_element="mime_bundle")\<close> does.
\<close>

definition no_basic_attributes :: "node \<Rightarrow> bool" where
  "no_basic_attributes n =
     list_all (\<lambda>att. dict_get (attributes n) att (PList []) = PList []) basic_attributes"

section \<open>The mime-bundle post-transform (SelectMimeType)\<close>

text \<open>
  The \<^verbatim>\<open>condition\<close> of \<^verbatim>\<open>SelectMimeType.run\<close>: a container whose attribute
  \<^verbatim>\<open>nb_element\<close> is \<^verbatim>\<open>"mime_bundle"\<close>. The class of a node is read from its tag
  name; subclasses of \<^verbatim>\<open>nodes.container\<close> are not told apart.
\<close>

definition condition :: "node \<Rightarrow> bool" where
  "condition n =
     (case n of
        Element t a ks \<Rightarrow> t = ''container'' \<and> dict_get a ''nb_element'' (PStr []) = PStr ''mime_bundle''
      | Text s \<Rightarrow> False)"

text \<open>\<^verbatim>\<open>findall(node)(condition)\<close>: the node and its descendants in document order.\<close>

fun findall :: "(node \<Rightarrow> bool) \<Rightarrow> node \<Rightarrow> node list" where
  "findall c (Text s) = (if c (Text s) then [Text s] else [])"
| "findall c (Element t a ks) =
     (if c (Element t a ks) then [Element t a ks] else []) @ concat (map (findall c) ks)"

definition findall_document :: "(node \<Rightarrow> bool) \<Rightarrow> document \<Rightarrow> node list" where
  "findall_document c doc = concat (map (findall c) (doc_children doc))"

text \<open>
  The trees on which the model of \<^verbatim>\<open>node.parent\<close> is that of docutils: no child of
  a mime bundle is itself a mime bundle. (On other trees docutils leaves parent links
  that point into detached nodes, which a tree as a value does not have.)
\<close>

fun well_formed :: "node \<Rightarrow> bool" where
  "well_formed (Text s) = True"
| "well_formed (Element t a ks) =
     ((condition (Element t a ks) \<longrightarrow> list_all (\<lambda>k. \<not> condition k) ks) \<and> list_all well_formed ks)"

definition well_formed_document :: "document \<Rightarrow> bool" where
  "well_formed_document doc = list_all well_formed (doc_children doc)"

text \<open>\<^verbatim>\<open>[node["mime_type"] for node in node.children]\<close>: the first failing child raises.\<close>

fun mime_types_of :: "node list \<Rightarrow> error + pyval list" where
  "mime_types_of [] = Inr []"
| "mime_types_of (k # ks) =
     (case node_item k ''mime_type'' of
        Inl e \<Rightarrow> Inl e
      | Inr m \<Rightarrow> (case mime_types_of ks of Inl e \<Rightarrow> Inl e | Inr ms \<Rightarrow> Inr (m # ms)))"

text \<open>
  The inner loop over the priority list: \<^verbatim>\<open>index\<close> stays \<^verbatim>\<open>None\<close> until an entry
  is found among the mime types, and the loop breaks there.
\<close>

fun select_index :: "string list \<Rightarrow> pyval list \<Rightarrow> nat option" where
  "select_index [] mime_types = None"
| "select_index (mime_type # priority_list) mime_types =
     (case list_index mime_types (PStr mime_type) of
        None \<Rightarrow> select_index priority_list mime_types
      | Some i \<Rightarrow> Some i)"

text \<open>
  The warning of the transform, with the builder's name and the mime types it lists
  (the text of the message is assembled from these two).
\<close>

datatype warning = MimePriorityWarning (w_builder: string) (w_mime_types: "pyval list")

text \<open>
  What the body of the loop does to one node of the list: \<^verbatim>\<open>node.parent.remove(node)\<close>,
  or \<^verbatim>\<open>node.replace_self(node.children[index].children)\<close>, kept with the index and
  with the nodes that take the place of the node.
\<close>

datatype action = Remove | ReplaceSelf nat "node list"

definition process_bundle :: "string list \<Rightarrow> string \<Rightarrow> node \<Rightarrow> error + (warning list \<times> action)" where
  "process_bundle priority_list bname n =
     (case mime_types_of (children n) of
        Inl e \<Rightarrow> Inl e
      | Inr mime_types \<Rightarrow>
          if mime_types = [] then Inr ([], Remove)
          else (case select_index priority_list mime_types of
                  None \<Rightarrow> Inr ([MimePriorityWarning bname mime_types], Remove)
                | Some i \<Rightarrow>
                    if children (children n ! i) = [] then Inr ([], Remove)
                    else (case replace_self n (children (children n ! i)) of
                            Inl e \<Rightarrow> Inl e
                          | Inr new \<Rightarrow> Inr ([], ReplaceSelf i new))))"

text \<open>Results of steps that run one after the other: the first exception ends them.\<close>

fun seq_results ::
  "(error + (warning list \<times> node list)) list \<Rightarrow> error + (warning list \<times> node list)" where
  "seq_results [] = Inr ([], [])"
| "seq_results (r # rs) =
     (case r of
        Inl e \<Rightarrow> Inl e
      | Inr (ws, ns) \<Rightarrow>
          (case seq_results rs of
             Inl e \<Rightarrow> Inl e
           | Inr (ws', ns') \<Rightarrow> Inr (ws @ ws', ns @ ns')))"

lemma mime_types_of_length:
  "mime_types_of ks = Inr ms \<Longrightarrow> length ms = length ks"
  by (induction ks arbitrary: ms) (auto split: sum.splits)

lemma list_index_less:
  "list_index xs x = Some i \<Longrightarrow> i < length xs"
  by (induction xs arbitrary: i) (auto split: if_splits option.splits)

lemma select_index_less:
  "select_index ps ms = Some i \<Longrightarrow> i < length ms"
  by (induction ps) (auto split: option.splits dest: list_index_less)

lemma replace_self_sizes:
  "replace_self n new = Inr new' \<Longrightarrow> map size new' = map size new"
  by (induction n new rule: replace_self.induct) (auto split: sum.splits if_splits)

lemma process_bundle_ReplaceSelfD:
  assumes "process_bundle ps b n = Inr (ws, ReplaceSelf i new)"
  shows "i < length (children n) \<and> map size new = map size (children (children n ! i))"
proof -
  from assms obtain ms where ms: "mime_types_of (children n) = Inr ms"
    and i: "select_index ps ms = Some i"
    and new: "replace_self n (children (children n ! i)) = Inr new"
    by (auto simp: process_bundle_def split: sum.splits if_splits option.splits)
  from ms i have "i < length (children n)"
    using mime_types_of_length select_index_less by fastforce
  with new show ?thesis
    by (simp add: replace_self_sizes)
qed

lemma size_child_less: "w \<in> set (children n) \<Longrightarrow> size w < size n"
  by (cases n) (auto dest: size_list_estimation' [where f = size and y = "size w"] simp: less_Suc_eq_le)

lemma size_replaced_less:
  assumes "process_bundle ps b n = Inr (ws, ReplaceSelf i new)" and "y \<in> set new"
  shows "size y < size n"
proof -
  from assms(1) have i: "i < length (children n)"
    and sz: "map size new = map size (children (children n ! i))"
    by (simp_all add: process_bundle_ReplaceSelfD)
  from assms(2) have "size y \<in> set (map size new)" by simp
  with sz obtain c where c: "c \<in> set (children (children n ! i))" and "size y = size c"
    by auto
  moreover from c have "size c < size (children n ! i)"
    by (rule size_child_less)
  moreover from i have "size (children n ! i) < size n"
    by (simp add: size_child_less)
  ultimately show ?thesis by simp
qed

text \<open>
  The loop on one node of the document and everything below it: the warnings logged and
  the nodes that stand in its place afterwards, or the exception that ends the
  transform. The list of bundles is taken before the loop and is in document order, so
  a bundle is handled before the bundles below it, and every bundle of the list is
  handled, also one that an earlier step has detached from the document: a bundle below
  a losing candidate, or below a removed bundle, still logs its warning or raises. The
  nodes that replace a bundle are handled in their turn where they now stand.
\<close>

function resolve_node ::
  "string list \<Rightarrow> string \<Rightarrow> node \<Rightarrow> error + (warning list \<times> node list)" where
  "resolve_node priority_list bname (Text s) = Inr ([], [Text s])"
| "resolve_node priority_list bname (Element t a ks) =
     (if condition (Element t a ks) then
        (case process_bundle priority_list bname (Element t a ks) of
           Inl e \<Rightarrow> Inl e
         | Inr (ws, Remove) \<Rightarrow>
             (case seq_results (map (resolve_node priority_list bname) ks) of
                Inl e \<Rightarrow> Inl e
              | Inr (ws', ns) \<Rightarrow> Inr (ws @ ws', []))
         | Inr (ws, ReplaceSelf i new) \<Rightarrow>
             (case seq_results (map (resolve_node priority_list bname) (take i ks)) of
                Inl e \<Rightarrow> Inl e
              | Inr (ws1, ns1) \<Rightarrow>
             (case seq_results (map (resolve_node priority_list bname) new) of
                Inl e \<Rightarrow> Inl e
              | Inr (ws2, ns2) \<Rightarrow>
             (case seq_results (map (resolve_node priority_list bname) (drop (Suc i) ks)) of
                Inl e \<Rightarrow> Inl e
              | Inr (ws3, ns3) \<Rightarrow> Inr (ws @ ws1 @ ws2 @ ws3, ns2)))))
      else (case seq_results (map (resolve_node priority_list bname) ks) of
              Inl e \<Rightarrow> Inl e
            | Inr (ws, ns) \<Rightarrow> Inr (ws, [Element t a ns])))"
  by pat_completeness auto

termination
proof (relation "measure (\<lambda>(ps, b, n). size n)", goal_cases)
  case 1
  show ?case by simp
next
  case (2 ps b t a ks r ws act y)
  then have "y \<in> set (children (Element t a ks))" by simp
  then have "size y < size (Element t a ks)" by (rule size_child_less)
  then show ?case by simp
next
  case (3 ps b t a ks r ws act i new y)
  then have "y \<in> set (children (Element t a ks))"
    by (auto dest: in_set_takeD)
  then have "size y < size (Element t a ks)" by (rule size_child_less)
  then show ?case by simp
next
  case (4 ps b t a ks r ws act i new r1 ws1 ns1 y)
  then have "process_bundle ps b (Element t a ks) = Inr (ws, ReplaceSelf i new)"
    by simp
  then have "size y < size (Element t a ks)"
    using \<open>y \<in> set new\<close> by (rule size_replaced_less)
  then show ?case by simp
next
  case (5 ps b t a ks r ws act i new r1 ws1 ns1 r2 ws2 ns2 y)
  then have "y \<in> set (children (Element t a ks))"
    by (auto dest: in_set_dropD)
  then have "size y < size (Element t a ks)" by (rule size_child_less)
  then show ?case by simp
next
  case (6 ps b t a ks y)
  then have "y \<in> set (children (Element t a ks))" by simp
  then have "size y < size (Element t a ks)" by (rule size_child_less)
  then show ?case by simp
qed

text \<open>
  \<^verbatim>\<open>SelectMimeType.run\<close>. The priority list is the result of
  \<^verbatim>\<open>get_mime_priority(bname, overrides)\<close>, which is defined outside this module, and is
  a parameter here. The result is the warnings logged and the document afterwards.
\<close>

definition SelectMimeType_run ::
  "string list \<Rightarrow> string \<Rightarrow> document \<Rightarrow> error + (warning list \<times> document)" where
  "SelectMimeType_run priority_list bname doc =
     (case seq_results (map (resolve_node priority_list bname) (doc_children doc)) of
        Inl e \<Rightarrow> Inl e
      | Inr (ws, ns) \<Rightarrow> Inr (ws, Document (doc_attributes doc) ns))"

lemma list_index_None: "(list_index xs x = None) = (x \<notin> set xs)"
  by (induction xs) (auto split: option.splits)

lemma list_index_first:
  "i < length xs \<Longrightarrow> xs ! i = x \<Longrightarrow> (\<forall>i'<i. xs ! i' \<noteq> x) \<Longrightarrow> list_index xs x = Some i"
proof (induction xs arbitrary: i)
  case Nil
  then show ?case by simp
next
  case (Cons y ys)
  show ?case
  proof (cases i)
    case 0
    with Cons.prems show ?thesis by simp
  next
    case (Suc k)
    with Cons.prems have "y \<noteq> x" by auto
    moreover from Suc Cons.prems have "list_index ys x = Some k"
      by (intro Cons.IH) auto
    ultimately show ?thesis by (simp add: Suc)
  qed
qed

lemma list_index_Some_mem: "list_index xs x = Some i \<Longrightarrow> x \<in> set xs"
  using list_index_None [of xs x] by auto

lemma select_index_None: "(select_index pl ms = None) = (\<forall>p \<in> set pl. PStr p \<notin> set ms)"
  by (induction pl) (auto simp: list_index_None split: option.splits dest: list_index_Some_mem)

lemma select_index_first:
  "j < length pl \<Longrightarrow> \<forall>j'<j. PStr (pl ! j') \<notin> set ms \<Longrightarrow>
   select_index pl ms = (case list_index ms (PStr (pl ! j)) of None \<Rightarrow> select_index (drop (Suc j) pl) ms | Some i \<Rightarrow> Some i)"
proof (induction pl arbitrary: j)
  case Nil
  then show ?case by simp
next
  case (Cons p ps)
  show ?case
  proof (cases j)
    case 0
    then show ?thesis by (simp split: option.splits)
  next
    case (Suc k)
    with Cons.prems have "PStr p \<notin> set ms" by auto
    then have "list_index ms (PStr p) = None" by (simp add: list_index_None)
    moreover from Suc Cons.prems have "select_index ps ms =
      (case list_index ms (PStr (ps ! k)) of None \<Rightarrow> select_index (drop (Suc k) ps) ms | Some i \<Rightarrow> Some i)"
      by (intro Cons.IH) auto
    ultimately show ?thesis by (simp add: Suc split: option.splits)
  qed
qed

lemma select_index_winner:
  assumes j: "j < length pl"
    and earlier: "\<forall>j'<j. PStr (pl ! j') \<notin> set ms"
    and i: "i < length ms"
    and match: "ms ! i = PStr (pl ! j)"
    and first: "\<forall>i'<i. ms ! i' \<noteq> PStr (pl ! j)"
  shows "select_index pl ms = Some i"
proof -
  from i match first have "list_index ms (PStr (pl ! j)) = Some i"
    by (rule list_index_first)
  with select_index_first [OF j earlier] show ?thesis by simp
qed

subsection \<open>Properties of the transform\<close>

lemma seq_results_append:
  "seq_results (xs @ ys) =
     (case seq_results xs of
        Inl e \<Rightarrow> Inl e
      | Inr (ws, ns) \<Rightarrow>
          (case seq_results ys of
             Inl e \<Rightarrow> Inl e
           | Inr (ws', ns') \<Rightarrow> Inr (ws @ ws', ns @ ns')))"
  by (induction xs) (auto split: sum.splits prod.splits)

lemma seq_results_around:
  assumes "seq_results (map f l) = Inr (wl, l')" and "f n = Inr (wn, n')"
    and "seq_results (map f r) = Inr (wr, r')"
  shows "seq_results (map f (l @ n # r)) = Inr (wl @ wn @ wr, l' @ n' @ r')"
  using assms by (simp add: seq_results_append)

lemma seq_results_quiet:
  "(\<And>x. x \<in> set xs \<Longrightarrow> f x = Inr ([], [x])) \<Longrightarrow> seq_results (map f xs) = Inr ([], xs)"
  by (induction xs) auto

lemma seq_results_all:
  assumes "\<And>x ws ns. x \<in> set xs \<Longrightarrow> f x = Inr (ws, ns) \<Longrightarrow> concat (map g ns) = []"
    and "seq_results (map f xs) = Inr (ws, ns)"
  shows "concat (map g ns) = []"
  using assms
proof (induction xs arbitrary: ws ns)
  case Nil
  then show ?case by simp
next
  case (Cons x xs)
  from Cons.prems(2) obtain w1 n1 w2 n2 where x: "f x = Inr (w1, n1)"
    and xs: "seq_results (map f xs) = Inr (w2, n2)" and ns: "ns = n1 @ n2"
    by (auto split: sum.splits prod.splits)
  have "concat (map g n1) = []"
    by (rule Cons.prems(1) [OF _ x]) simp
  moreover have "concat (map g n2) = []"
  proof (rule Cons.IH [OF _ xs])
    fix y ws' ns' assume "y \<in> set xs" and "f y = Inr (ws', ns')"
    then show "concat (map g ns') = []"
      using Cons.prems(1) [of y ws' ns'] by simp
  qed
  ultimately show ?case by (simp add: ns)
qed

lemma concat_eq_Nil_mem: "concat (map f xs) = [] \<Longrightarrow> x \<in> set xs \<Longrightarrow> f x = []"
  by (induction xs) auto

lemma resolve_node_no_bundle:
  "findall condition n = [] \<Longrightarrow> resolve_node pl b n = Inr ([], [n])"
proof (induction n)
  case (Element t a ks)
  from Element.prems have nc: "\<not> condition (Element t a ks)"
    and ks: "concat (map (findall condition) ks) = []"
    by (auto split: if_splits)
  have "resolve_node pl b k = Inr ([], [k])" if "k \<in> set ks" for k
  proof -
    from ks that have "findall condition k = []"
      by (rule concat_eq_Nil_mem)
    with that show ?thesis
      by (rule Element.IH)
  qed
  then have "seq_results (map (resolve_node pl b) ks) = Inr ([], ks)"
    by (rule seq_results_quiet)
  with nc show ?case by simp
next
  case (Text s)
  show ?case by simp
qed

lemma resolve_list_no_bundle:
  "concat (map (findall condition) ns) = [] \<Longrightarrow>
   seq_results (map (resolve_node pl b) ns) = Inr ([], ns)"
  by (rule seq_results_quiet) (auto intro: resolve_node_no_bundle)

lemma resolve_node_resolved:
  "resolve_node pl b n = Inr (ws, ns) \<Longrightarrow> concat (map (findall condition) ns) = []"
proof (induction pl b n arbitrary: ws ns rule: resolve_node.induct)
  case (1 pl b s)
  then show ?case by (auto simp: condition_def)
next
  case (2 pl b t a ks)
  let ?n = "Element t a ks"
  show ?case
  proof (cases "condition ?n")
    case True
    with "2.prems" obtain w0 act where pb: "process_bundle pl b ?n = Inr (w0, act)"
      by (auto split: sum.splits)
    show ?thesis
    proof (cases act)
      case Remove
      with True pb "2.prems" show ?thesis
        by (auto split: sum.splits prod.splits)
    next
      case (ReplaceSelf i new)
      with True pb "2.prems" obtain w1 n1 w2 where
        s1: "seq_results (map (resolve_node pl b) (take i ks)) = Inr (w1, n1)"
        and s2: "seq_results (map (resolve_node pl b) new) = Inr (w2, ns)"
        by (auto split: sum.splits prod.splits)
      have "concat (map (findall condition) ns') = []"
        if "x \<in> set new" and "resolve_node pl b x = Inr (ws', ns')" for x ws' ns'
        using "2.IH"(3) [OF True pb refl ReplaceSelf s1 refl that] .
      then show ?thesis
        using s2 by (rule seq_results_all)
    qed
  next
    case False
    with "2.prems" obtain ks' where s: "seq_results (map (resolve_node pl b) ks) = Inr (ws, ks')"
      and ns: "ns = [Element t a ks']"
      by (auto split: sum.splits prod.splits)
    have "concat (map (findall condition) ns') = []"
      if "x \<in> set ks" and "resolve_node pl b x = Inr (ws', ns')" for x ws' ns'
      using "2.IH"(5) [OF False that] .
    then have "concat (map (findall condition) ks') = []"
      using s by (rule seq_results_all)
    moreover from False have "\<not> condition (Element t a ks')"
      by (simp add: condition_def)
    ultimately show ?thesis by (simp add: ns)
  qed
qed

lemma append_attr_list_empty: "append_attr_list attrs att (PList []) = Inr attrs"
  by (simp add: append_attr_list_def)

lemma update_basic_atts_from_empty:
  "list_all (\<lambda>att. dict_get d att (PList []) = PList []) atts \<Longrightarrow>
   update_basic_atts_from atts attrs d = Inr attrs"
  by (induction atts) (auto simp: append_attr_list_empty)

lemma replace_self_no_basic_attributes:
  assumes "no_basic_attributes n"
  shows "replace_self n new = Inr new"
proof -
  from assms have keep: "\<not> loses_attribute n"
    by (auto simp: no_basic_attributes_def loses_attribute_def basic_attributes_def)
  show ?thesis
  proof (cases new)
    case Nil
    with keep show ?thesis by simp
  next
    case (Cons x rest)
    show ?thesis
    proof (cases x)
      case (Element t a ks)
      with assms Cons show ?thesis
        by (simp add: no_basic_attributes_def update_basic_atts_def update_basic_atts_from_empty)
    next
      case (Text s)
      with keep Cons show ?thesis by simp
    qed
  qed
qed

lemma resolve_node_removed:
  assumes "condition n" and "process_bundle pl b n = Inr (w0, Remove)"
    and "seq_results (map (resolve_node pl b) (children n)) = Inr (wk, ks')"
  shows "resolve_node pl b n = Inr (w0 @ wk, [])"
  using assms by (cases n) (simp_all add: condition_def)

lemma resolve_node_replaced:
  assumes "condition n" and "process_bundle pl b n = Inr (w0, ReplaceSelf i new)"
    and "seq_results (map (resolve_node pl b) (take i (children n))) = Inr (w1, n1)"
    and "seq_results (map (resolve_node pl b) new) = Inr (w2, new')"
    and "seq_results (map (resolve_node pl b) (drop (Suc i) (children n))) = Inr (w3, n3)"
  shows "resolve_node pl b n = Inr (w0 @ w1 @ w2 @ w3, new')"
  using assms by (cases n) (simp_all add: condition_def)

lemma resolve_parent:
  assumes "\<not> condition (Element t a (l @ n # r))"
    and "seq_results (map (resolve_node pl b) l) = Inr (wl, l')"
    and "resolve_node pl b n = Inr (wn, n')"
    and "seq_results (map (resolve_node pl b) r) = Inr (wr, r')"
  shows "resolve_node pl b (Element t a (l @ n # r)) = Inr (wl @ wn @ wr, [Element t a (l' @ n' @ r')])"
proof -
  have "seq_results (map (resolve_node pl b) (l @ n # r)) = Inr (wl @ wn @ wr, l' @ n' @ r')"
    using assms(2-4) by (rule seq_results_around)
  with assms(1) show ?thesis by simp
qed

lemma run_document:
  assumes "seq_results (map (resolve_node pl b) l) = Inr (wl, l')"
    and "resolve_node pl b n = Inr (wn, n')"
    and "seq_results (map (resolve_node pl b) r) = Inr (wr, r')"
  shows "SelectMimeType_run pl b (Document da (l @ n # r)) =
           Inr (wl @ wn @ wr, Document da (l' @ n' @ r'))"
proof -
  have "seq_results (map (resolve_node pl b) (l @ n # r)) = Inr (wl @ wn @ wr, l' @ n' @ r')"
    using assms by (rule seq_results_around)
  then show ?thesis by (simp add: SelectMimeType_run_def)
qed

lemma no_bundle_take_drop:
  assumes "concat (map (findall condition) ks) = []"
  shows "concat (map (findall condition) (take i ks)) = []"
    and "concat (map (findall condition) (drop i ks)) = []"
    and "i < length ks \<Longrightarrow> concat (map (findall condition) (children (ks ! i))) = []"
proof -
  have all: "findall condition k = []" if "k \<in> set ks" for k
    using assms that by (rule concat_eq_Nil_mem)
  show "concat (map (findall condition) (take i ks)) = []"
    using all by (auto dest: in_set_takeD)
  show "concat (map (findall condition) (drop i ks)) = []"
    using all by (auto dest: in_set_dropD)
  assume "i < length ks"
  then have "findall condition (ks ! i) = []"
    using all by simp
  then show "concat (map (findall condition) (children (ks ! i))) = []"
    by (cases "ks ! i") (auto split: if_splits)
qed

text \<open>
  Claim C2 does not hold as it is worded for a bundle that carries classes (or ids,
  names, dupnames): \<^verbatim>\<open>replace_self\<close> of docutils then raises when the first child of
  the winning container is a text node, and otherwise adds the classes to that child.
\<close>

theorem select_mime_type_replace_counterexample:
  "SelectMimeType_run [''A''] ''html''
     (Document []
        [Element ''container'' [(''nb_element'', PStr ''mime_bundle''), (''classes'', PList [PStr ''x''])]
           [Element ''container'' [(''mime_type'', PStr ''A'')] [Text ''a'']]])
     = Inl AssertionError
   \<and> SelectMimeType_run [''A''] ''html''
     (Document []
        [Element ''container'' [(''nb_element'', PStr ''mime_bundle''), (''classes'', PList [PStr ''x''])]
           [Element ''container'' [(''mime_type'', PStr ''A'')] [Element ''paragraph'' [] [Text ''a'']]]])
     = Inr ([], Document [] [Element ''paragraph'' [(''classes'', PList [PStr ''x''])] [Text ''a'']])"
  by (simp add: SelectMimeType_run_def condition_def process_bundle_def dict_get_def dict_item_def
      loses_attribute_def basic_attributes_def update_basic_atts_def append_attr_list_def)

text \<open>
  Claim C2, amended. Let \<open>n\<close> be a mime bundle whose children all carry a mime type, let
  entry \<open>j\<close> of the priority list be the first one that occurs among these mime types,
  and let child \<open>i\<close> be the first child with that mime type. Then the loop body logs
  nothing; it removes \<open>n\<close> when child \<open>i\<close> has no children (no later priority entry is
  tried), and otherwise calls \<^verbatim>\<open>replace_self\<close> with the children of child \<open>i\<close>. When
  \<open>n\<close> carries no ids, classes, names or dupnames, as every bundle the tree builder
  makes, \<^verbatim>\<open>replace_self\<close> puts exactly these children in the place of \<open>n\<close>: under a
  parent that is not a bundle, and at the top of the document, the children of the
  parent afterwards are the resolved siblings before \<open>n\<close>, the children of child \<open>i\<close>,
  and the resolved siblings after \<open>n\<close> (here no bundle stands among or below the
  candidates of \<open>n\<close>; the siblings are arbitrary).
\<close>

theorem select_mime_type_first_priority_wins:
  assumes isb: "condition n"
    and types: "mime_types_of (children n) = Inr mime_types"
    and j: "j < length priority_list"
    and earlier: "\<forall>j'<j. PStr (priority_list ! j') \<notin> set mime_types"
    and i: "i < length mime_types"
    and match: "mime_types ! i = PStr (priority_list ! j)"
    and first: "\<forall>i'<i. mime_types ! i' \<noteq> PStr (priority_list ! j)"
  shows "process_bundle priority_list bname n =
           (if children (children n ! i) = [] then Inr ([], Remove)
            else (case replace_self n (children (children n ! i)) of
                    Inl e \<Rightarrow> Inl e
                  | Inr new \<Rightarrow> Inr ([], ReplaceSelf i new)))
       \<and> (no_basic_attributes n \<longrightarrow>
            replace_self n (children (children n ! i)) = Inr (children (children n ! i)))
       \<and> (no_basic_attributes n \<and>
          concat (map (findall condition) (children n)) = [] \<and>
          seq_results (map (resolve_node priority_list bname) l) = Inr (wl, l') \<and>
          seq_results (map (resolve_node priority_list bname) r) = Inr (wr, r') \<longrightarrow>
            (\<not> condition (Element t a (l @ n # r)) \<and> well_formed (Element t a (l @ n # r)) \<longrightarrow>
               resolve_node priority_list bname (Element t a (l @ n # r)) =
                 Inr (wl @ wr, [Element t a (l' @ children (children n ! i) @ r')]))
          \<and> (well_formed_document (Document da (l @ n # r)) \<longrightarrow>
               SelectMimeType_run priority_list bname (Document da (l @ n # r)) =
                 Inr (wl @ wr, Document da (l' @ children (children n ! i) @ r'))))"
proof -
  let ?ks = "children n"
  let ?w = "?ks ! i"
  have sel: "select_index priority_list mime_types = Some i"
    using j earlier i match first by (rule select_index_winner)
  from i have ne: "mime_types \<noteq> []" by auto
  from i types have ik: "i < length ?ks"
    by (simp add: mime_types_of_length)
  have pb: "process_bundle priority_list bname n =
           (if children ?w = [] then Inr ([], Remove)
            else (case replace_self n (children ?w) of
                    Inl e \<Rightarrow> Inl e
                  | Inr new \<Rightarrow> Inr ([], ReplaceSelf i new)))"
    using types sel ne by (simp add: process_bundle_def)
  have rs: "replace_self n (children ?w) = Inr (children ?w)" if "no_basic_attributes n"
    using that by (rule replace_self_no_basic_attributes)
  have rn: "resolve_node priority_list bname n = Inr ([], children ?w)"
    if nba: "no_basic_attributes n" and nil: "concat (map (findall condition) ?ks) = []"
  proof (cases "children ?w = []")
    case True
    with pb have "process_bundle priority_list bname n = Inr ([], Remove)" by simp
    moreover from nil have "seq_results (map (resolve_node priority_list bname) ?ks) = Inr ([], ?ks)"
      by (rule resolve_list_no_bundle)
    ultimately have "resolve_node priority_list bname n = Inr ([] @ [], [])"
      by (rule resolve_node_removed [OF isb])
    with True show ?thesis by simp
  next
    case False
    with pb rs [OF nba] have "process_bundle priority_list bname n = Inr ([], ReplaceSelf i (children ?w))"
      by simp
    moreover have "seq_results (map (resolve_node priority_list bname) (take i ?ks)) = Inr ([], take i ?ks)"
      using no_bundle_take_drop(1) [OF nil] by (rule resolve_list_no_bundle)
    moreover have "seq_results (map (resolve_node priority_list bname) (children ?w)) = Inr ([], children ?w)"
      using no_bundle_take_drop(3) [OF nil ik] by (rule resolve_list_no_bundle)
    moreover have "seq_results (map (resolve_node priority_list bname) (drop (Suc i) ?ks)) =
        Inr ([], drop (Suc i) ?ks)"
      using no_bundle_take_drop(2) [OF nil] by (rule resolve_list_no_bundle)
    ultimately have "resolve_node priority_list bname n = Inr ([] @ [] @ [] @ [], children ?w)"
      by (rule resolve_node_replaced [OF isb])
    then show ?thesis by simp
  qed
  have par: "resolve_node priority_list bname (Element t a (l @ n # r)) =
                 Inr (wl @ wr, [Element t a (l' @ children ?w @ r')])"
    if "no_basic_attributes n" "concat (map (findall condition) ?ks) = []"
      "seq_results (map (resolve_node priority_list bname) l) = Inr (wl, l')"
      "seq_results (map (resolve_node priority_list bname) r) = Inr (wr, r')"
      "\<not> condition (Element t a (l @ n # r))"
    using resolve_parent [OF that(5) that(3) rn [OF that(1,2)] that(4)] by simp
  have doc: "SelectMimeType_run priority_list bname (Document da (l @ n # r)) =
                 Inr (wl @ wr, Document da (l' @ children ?w @ r'))"
    if "no_basic_attributes n" "concat (map (findall condition) ?ks) = []"
      "seq_results (map (resolve_node priority_list bname) l) = Inr (wl, l')"
      "seq_results (map (resolve_node priority_list bname) r) = Inr (wr, r')"
    using run_document [OF that(3) rn [OF that(1,2)] that(4), of da] by simp
  from pb rs par doc show ?thesis by blast
qed

theorem select_mime_type_first_priority_wins_witness:
  "resolve_node [''A'', ''B'', ''C''] ''html''
     (Element ''container'' [(''nb_element'', PStr ''cell_code_output'')]
        [Text ''x'',
         Element ''container'' [(''nb_element'', PStr ''mime_bundle'')]
           [Element ''container'' [(''mime_type'', PStr ''C'')] [Text ''c''],
            Element ''container'' [(''mime_type'', PStr ''B'')] [Text ''b'', Text ''b2'']],
         Element ''container'' [(''nb_element'', PStr ''mime_bundle'')] []])
     = Inr ([], [Element ''container'' [(''nb_element'', PStr ''cell_code_output'')]
                   [Text ''x'', Text ''b'', Text ''b2'']])
   \<and> SelectMimeType_run [''A'', ''B'', ''C''] ''html''
     (Document [(''source'', PStr ''nb.ipynb'')]
        [Text ''x'',
         Element ''container'' [(''nb_element'', PStr ''mime_bundle'')]
           [Element ''container'' [(''mime_type'', PStr ''C'')] [Text ''c''],
            Element ''container'' [(''mime_type'', PStr ''B'')] [Text ''b'', Text ''b2'']],
         Element ''container'' [(''nb_element'', PStr ''mime_bundle'')] []])
     = Inr ([], Document [(''source'', PStr ''nb.ipynb'')] [Text ''x'', Text ''b'', Text ''b2''])"
proof -
  let ?n = "Element ''container'' [(''nb_element'', PStr ''mime_bundle'')]
           [Element ''container'' [(''mime_type'', PStr ''C'')] [Text ''c''],
            Element ''container'' [(''mime_type'', PStr ''B'')] [Text ''b'', Text ''b2'']]"
  let ?e = "Element ''container'' [(''nb_element'', PStr ''mime_bundle'')] []"
  have isb: "condition ?n"
    by (simp add: condition_def dict_get_def)
  have types: "mime_types_of (children ?n) = Inr [PStr ''C'', PStr ''B'']"
    by (simp add: dict_item_def)
  have j: "(1::nat) < length [''A'', ''B'', ''C'']" by simp
  have earlier: "\<forall>j'<(1::nat). PStr ([''A'', ''B'', ''C''] ! j') \<notin> set [PStr ''C'', PStr ''B'']"
    by simp
  have i: "(1::nat) < length [PStr ''C'', PStr ''B'']" by simp
  have match: "[PStr ''C'', PStr ''B''] ! 1 = PStr ([''A'', ''B'', ''C''] ! 1)" by simp
  have first: "\<forall>i'<(1::nat). [PStr ''C'', PStr ''B''] ! i' \<noteq> PStr ([''A'', ''B'', ''C''] ! 1)"
    by simp
  have nba: "no_basic_attributes ?n"
    by (simp add: no_basic_attributes_def basic_attributes_def dict_get_def)
  have nil: "concat (map (findall condition) (children ?n)) = []"
    by (simp add: condition_def dict_get_def)
  have l: "seq_results (map (resolve_node [''A'', ''B'', ''C''] ''html'') [Text ''x'']) = Inr ([], [Text ''x''])"
    by simp
  have r: "seq_results (map (resolve_node [''A'', ''B'', ''C''] ''html'') [?e]) = Inr ([], [])"
    by (simp add: condition_def dict_get_def process_bundle_def)
  have nc: "\<not> condition (Element ''container'' [(''nb_element'', PStr ''cell_code_output'')] ([Text ''x''] @ ?n # [?e]))"
    by (simp add: condition_def dict_get_def)
  have wf: "well_formed (Element ''container'' [(''nb_element'', PStr ''cell_code_output'')] ([Text ''x''] @ ?n # [?e]))"
    by (simp add: condition_def dict_get_def)
  have wfd: "well_formed_document (Document [(''source'', PStr ''nb.ipynb'')] ([Text ''x''] @ ?n # [?e]))"
    by (simp add: well_formed_document_def condition_def dict_get_def)
  from select_mime_type_first_priority_wins [OF isb types j earlier i match first,
      where bname = "''html''" and l = "[Text ''x'']" and r = "[?e]" and wl = "[]" and wr = "[]"
        and l' = "[Text ''x'']" and r' = "[]" and t = "''container''"
        and a = "[(''nb_element'', PStr ''cell_code_output'')]"
        and da = "[(''source'', PStr ''nb.ipynb'')]"]
    nba nil l r nc wf wfd
  show ?thesis by simp
qed

text \<open>
  Claim C3. A mime bundle whose children carry mime types none of which is an entry of
  the priority list makes the loop body log exactly one warning, which holds the
  builder's name and the list of these mime types, and remove the node; a mime bundle
  with no children is removed and nothing is logged. Under a parent that is not a
  bundle, and at the top of the document, the parent's children afterwards are the
  resolved siblings before and after the node, and the node is gone; the warnings are
  those of the siblings before, the one warning of the node (none for a bundle without
  children), those of the bundles below the node, which are still handled, and those
  of the siblings after.
\<close>

theorem select_mime_type_no_match_or_empty:
  "(condition n \<and> mime_types_of (children n) = Inr mime_types \<and> mime_types \<noteq> [] \<and>
      (\<forall>p \<in> set priority_list. PStr p \<notin> set mime_types) \<longrightarrow>
        process_bundle priority_list bname n =
          Inr ([MimePriorityWarning bname mime_types], Remove)
      \<and> (seq_results (map (resolve_node priority_list bname) l) = Inr (wl, l') \<and>
         seq_results (map (resolve_node priority_list bname) (children n)) = Inr (wk, ks') \<and>
         seq_results (map (resolve_node priority_list bname) r) = Inr (wr, r') \<longrightarrow>
           (\<not> condition (Element t a (l @ n # r)) \<and> well_formed (Element t a (l @ n # r)) \<longrightarrow>
              resolve_node priority_list bname (Element t a (l @ n # r)) =
                Inr (wl @ MimePriorityWarning bname mime_types # wk @ wr, [Element t a (l' @ r')]))
         \<and> (well_formed_document (Document da (l @ n # r)) \<longrightarrow>
              SelectMimeType_run priority_list bname (Document da (l @ n # r)) =
                Inr (wl @ MimePriorityWarning bname mime_types # wk @ wr, Document da (l' @ r')))))
   \<and> (condition n \<and> children n = [] \<longrightarrow>
        process_bundle priority_list bname n = Inr ([], Remove)
      \<and> (seq_results (map (resolve_node priority_list bname) l) = Inr (wl, l') \<and>
         seq_results (map (resolve_node priority_list bname) r) = Inr (wr, r') \<longrightarrow>
           (\<not> condition (Element t a (l @ n # r)) \<and> well_formed (Element t a (l @ n # r)) \<longrightarrow>
              resolve_node priority_list bname (Element t a (l @ n # r)) =
                Inr (wl @ wr, [Element t a (l' @ r')]))
         \<and> (well_formed_document (Document da (l @ n # r)) \<longrightarrow>
              SelectMimeType_run priority_list bname (Document da (l @ n # r)) =
                Inr (wl @ wr, Document da (l' @ r')))))"
proof -
  let ?res = "resolve_node priority_list bname"
  have A: "process_bundle priority_list bname n =
          Inr ([MimePriorityWarning bname mime_types], Remove)"
    if "mime_types_of (children n) = Inr mime_types" "mime_types \<noteq> []"
      "\<forall>p \<in> set priority_list. PStr p \<notin> set mime_types"
  proof -
    from that(3) have "select_index priority_list mime_types = None"
      by (simp add: select_index_None)
    with that(1,2) show ?thesis
      by (simp add: process_bundle_def)
  qed
  have A1: "?res n = Inr (MimePriorityWarning bname mime_types # wk, [])"
    if "condition n" "mime_types_of (children n) = Inr mime_types" "mime_types \<noteq> []"
      "\<forall>p \<in> set priority_list. PStr p \<notin> set mime_types"
      "seq_results (map ?res (children n)) = Inr (wk, ks')"
    using resolve_node_removed [OF that(1) A [OF that(2,3,4)] that(5)] by simp
  have B: "process_bundle priority_list bname n = Inr ([], Remove)" if "children n = []"
    using that by (simp add: process_bundle_def)
  have B1: "?res n = Inr ([], [])" if "condition n" "children n = []"
    using resolve_node_removed [OF that(1) B [OF that(2)], of "[]" "[]"] that(2) by simp
  have P: "?res (Element t a (l @ n # r)) = Inr (wl @ wn @ wr, [Element t a (l' @ r')])"
    if "?res n = Inr (wn, [])" "seq_results (map ?res l) = Inr (wl, l')"
      "seq_results (map ?res r) = Inr (wr, r')" "\<not> condition (Element t a (l @ n # r))" for wn
    using resolve_parent [OF that(4) that(2) that(1) that(3)] by simp
  have D: "SelectMimeType_run priority_list bname (Document da (l @ n # r)) =
      Inr (wl @ wn @ wr, Document da (l' @ r'))"
    if "?res n = Inr (wn, [])" "seq_results (map ?res l) = Inr (wl, l')"
      "seq_results (map ?res r) = Inr (wr, r')" for wn
    using run_document [OF that(2) that(1) that(3), of da] by simp
  show ?thesis
  proof (intro conjI impI; (elim conjE)?)
    assume "mime_types_of (children n) = Inr mime_types" "mime_types \<noteq> []"
      "\<forall>p \<in> set priority_list. PStr p \<notin> set mime_types"
    then show "process_bundle priority_list bname n =
          Inr ([MimePriorityWarning bname mime_types], Remove)"
      by (rule A)
  next
    assume "condition n" "mime_types_of (children n) = Inr mime_types" "mime_types \<noteq> []"
      "\<forall>p \<in> set priority_list. PStr p \<notin> set mime_types"
      "seq_results (map ?res (children n)) = Inr (wk, ks')"
    then have n: "?res n = Inr (MimePriorityWarning bname mime_types # wk, [])"
      by (rule A1)
    assume "seq_results (map ?res l) = Inr (wl, l')" "seq_results (map ?res r) = Inr (wr, r')"
      "\<not> condition (Element t a (l @ n # r))"
    with n show "?res (Element t a (l @ n # r)) =
        Inr (wl @ MimePriorityWarning bname mime_types # wk @ wr, [Element t a (l' @ r')])"
      using P [of "MimePriorityWarning bname mime_types # wk"] by simp
  next
    assume "condition n" "mime_types_of (children n) = Inr mime_types" "mime_types \<noteq> []"
      "\<forall>p \<in> set priority_list. PStr p \<notin> set mime_types"
      "seq_results (map ?res (children n)) = Inr (wk, ks')"
    then have n: "?res n = Inr (MimePriorityWarning bname mime_types # wk, [])"
      by (rule A1)
    assume "seq_results (map ?res l) = Inr (wl, l')" "seq_results (map ?res r) = Inr (wr, r')"
    with n show "SelectMimeType_run priority_list bname (Document da (l @ n # r)) =
        Inr (wl @ MimePriorityWarning bname mime_types # wk @ wr, Document da (l' @ r'))"
      using D [of "MimePriorityWarning bname mime_types # wk"] by simp
  next
    assume "children n = []"
    then show "process_bundle priority_list bname n = Inr ([], Remove)"
      by (rule B)
  next
    assume "condition n" "children n = []"
    then have n: "?res n = Inr ([], [])" by (rule B1)
    assume "seq_results (map ?res l) = Inr (wl, l')" "seq_results (map ?res r) = Inr (wr, r')"
      "\<not> condition (Element t a (l @ n # r))"
    with n show "?res (Element t a (l @ n # r)) = Inr (wl @ wr, [Element t a (l' @ r')])"
      using P [of "[]"] by simp
  next
    assume "condition n" "children n = []"
    then have n: "?res n = Inr ([], [])" by (rule B1)
    assume "seq_results (map ?res l) = Inr (wl, l')" "seq_results (map ?res r) = Inr (wr, r')"
    with n show "SelectMimeType_run priority_list bname (Document da (l @ n # r)) =
        Inr (wl @ wr, Document da (l' @ r'))"
      using D [of "[]"] by simp
  qed
qed

theorem select_mime_type_no_match_or_empty_witness:
  "resolve_node [''A'', ''B'', ''C''] ''latex''
     (Element ''container'' [(''nb_element'', PStr ''cell_code_output'')]
        [Element ''container'' [(''nb_element'', PStr ''mime_bundle'')]
           [Element ''container'' [(''mime_type'', PStr ''B'')] [Text ''b'']],
         Element ''container'' [(''nb_element'', PStr ''mime_bundle'')]
           [Element ''container'' [(''mime_type'', PStr ''D'')] [Text ''d'']],
         Text ''y''])
     = Inr ([MimePriorityWarning ''latex'' [PStr ''D'']],
            [Element ''container'' [(''nb_element'', PStr ''cell_code_output'')] [Text ''b'', Text ''y'']])
   \<and> SelectMimeType_run [''A'', ''B'', ''C''] ''latex''
     (Document []
        [Element ''container'' [(''nb_element'', PStr ''mime_bundle'')]
           [Element ''container'' [(''mime_type'', PStr ''B'')] [Text ''b'']],
         Element ''container'' [(''nb_element'', PStr ''mime_bundle'')] [],
         Text ''y''])
     = Inr ([], Document [] [Text ''b'', Text ''y''])"
proof -
  let ?pl = "[''A'', ''B'', ''C'']"
  let ?b = "Element ''container'' [(''nb_element'', PStr ''mime_bundle'')]
           [Element ''container'' [(''mime_type'', PStr ''B'')] [Text ''b'']]"
  let ?d = "Element ''container'' [(''nb_element'', PStr ''mime_bundle'')]
           [Element ''container'' [(''mime_type'', PStr ''D'')] [Text ''d'']]"
  let ?e = "Element ''container'' [(''nb_element'', PStr ''mime_bundle'')] []"
  have l: "seq_results (map (resolve_node ?pl ''latex'') [?b]) = Inr ([], [Text ''b''])"
    by (simp add: condition_def dict_get_def dict_item_def process_bundle_def
        loses_attribute_def basic_attributes_def)
  have k: "seq_results (map (resolve_node ?pl ''latex'') (children ?d)) =
      Inr ([], [Element ''container'' [(''mime_type'', PStr ''D'')] [Text ''d'']])"
    by (simp add: condition_def dict_get_def)
  have r: "seq_results (map (resolve_node ?pl ''latex'') [Text ''y'']) = Inr ([], [Text ''y''])"
    by simp
  have c: "condition ?d" "condition ?e"
    by (simp_all add: condition_def dict_get_def)
  have m: "mime_types_of (children ?d) = Inr [PStr ''D'']"
    by (simp add: dict_item_def)
  have nc: "\<not> condition (Element ''container'' [(''nb_element'', PStr ''cell_code_output'')] ([?b] @ ?d # [Text ''y'']))"
    by (simp add: condition_def dict_get_def)
  have wf: "well_formed (Element ''container'' [(''nb_element'', PStr ''cell_code_output'')] ([?b] @ ?d # [Text ''y'']))"
    by (simp add: condition_def dict_get_def)
  have wfd: "well_formed_document (Document [] ([?b] @ ?e # [Text ''y'']))"
    by (simp add: well_formed_document_def condition_def dict_get_def)
  have ne: "[PStr ''D''] \<noteq> []" by simp
  have no: "\<forall>p \<in> set ?pl. PStr p \<notin> set [PStr ''D'']" by simp
  have e: "children ?e = []" by simp
  from select_mime_type_no_match_or_empty
    [where n = ?d and mime_types = "[PStr ''D'']" and priority_list = ?pl and bname = "''latex''"
      and l = "[?b]" and r = "[Text ''y'']" and wl = "[]" and wr = "[]" and wk = "[]"
      and l' = "[Text ''b'']" and r' = "[Text ''y'']"
      and ks' = "[Element ''container'' [(''mime_type'', PStr ''D'')] [Text ''d'']]"
      and t = "''container''" and a = "[(''nb_element'', PStr ''cell_code_output'')]" and da = "[]"]
    c(1) m ne no l k r nc wf
  have "resolve_node ?pl ''latex''
      (Element ''container'' [(''nb_element'', PStr ''cell_code_output'')] ([?b] @ ?d # [Text ''y''])) =
      Inr ([] @ MimePriorityWarning ''latex'' [PStr ''D''] # [] @ [],
           [Element ''container'' [(''nb_element'', PStr ''cell_code_output'')] ([Text ''b''] @ [Text ''y''])])"
    by blast
  then have one: "resolve_node ?pl ''latex''
      (Element ''container'' [(''nb_element'', PStr ''cell_code_output'')] [?b, ?d, Text ''y'']) =
      Inr ([MimePriorityWarning ''latex'' [PStr ''D'']],
           [Element ''container'' [(''nb_element'', PStr ''cell_code_output'')] [Text ''b'', Text ''y'']])"
    by (simp only: append_Cons append_Nil)
  from select_mime_type_no_match_or_empty
    [where n = ?e and priority_list = ?pl and bname = "''latex''"
      and l = "[?b]" and r = "[Text ''y'']" and wl = "[]" and wr = "[]"
      and l' = "[Text ''b'']" and r' = "[Text ''y'']" and da = "[]"
      and t = "''container''" and a = "[]" and mime_types = "[]" and wk = "[]" and ks' = "[]"]
    c(2) e l r wfd
  have "SelectMimeType_run ?pl ''latex'' (Document [] ([?b] @ ?e # [Text ''y''])) =
      Inr ([] @ [], Document [] ([Text ''b''] @ [Text ''y'']))"
    by blast
  then have two: "SelectMimeType_run ?pl ''latex'' (Document [] [?b, ?e, Text ''y'']) =
      Inr ([], Document [] [Text ''b'', Text ''y''])"
    by (simp only: append_Cons append_Nil)
  from one two show ?thesis by simp
qed

lemma run_no_bundle:
  "findall_document condition doc = [] \<Longrightarrow> SelectMimeType_run pl b doc = Inr ([], doc)"
proof -
  assume "findall_document condition doc = []"
  then have "concat (map (findall condition) (doc_children doc)) = []"
    by (simp add: findall_document_def)
  then have "seq_results (map (resolve_node pl b) (doc_children doc)) = Inr ([], doc_children doc)"
    by (rule resolve_list_no_bundle)
  then show ?thesis
    by (simp add: SelectMimeType_run_def)
qed

text \<open>
  Claim C7. On a document without mime bundles the transform logs nothing and returns
  the document as it is. A document that the transform returns, when it was run on a
  document in which no child of a mime bundle is itself a mime bundle (as in every
  document of the tree builder), has no mime bundle, so running the transform on it
  again, for any builder and priority list, logs nothing and returns it unchanged.
\<close>

theorem select_mime_type_idempotent:
  "(findall_document condition doc = [] \<longrightarrow>
      SelectMimeType_run priority_list bname doc = Inr ([], doc))
   \<and> (well_formed_document doc \<and> SelectMimeType_run priority_list bname doc = Inr (ws, doc') \<longrightarrow>
      findall_document condition doc' = [] \<and>
      SelectMimeType_run priority_list' bname' doc' = Inr ([], doc'))"
proof (intro conjI impI; (elim conjE)?)
  assume "findall_document condition doc = []"
  then show "SelectMimeType_run priority_list bname doc = Inr ([], doc)"
    by (rule run_no_bundle)
next
  assume run: "SelectMimeType_run priority_list bname doc = Inr (ws, doc')"
  then obtain ns where s: "seq_results (map (resolve_node priority_list bname) (doc_children doc)) = Inr (ws, ns)"
    and doc': "doc' = Document (doc_attributes doc) ns"
    by (auto simp: SelectMimeType_run_def split: sum.splits prod.splits)
  have "concat (map (findall condition) ns) = []"
    using resolve_node_resolved s by (rule seq_results_all)
  then show nil: "findall_document condition doc' = []"
    by (simp add: doc' findall_document_def)
  assume "SelectMimeType_run priority_list bname doc = Inr (ws, doc')"
  from nil show "SelectMimeType_run priority_list' bname' doc' = Inr ([], doc')"
    by (rule run_no_bundle)
qed

theorem select_mime_type_idempotent_witness:
  "SelectMimeType_run [''B''] ''html'' (Document [] [Element ''section'' [] [Text ''t'']])
     = Inr ([], Document [] [Element ''section'' [] [Text ''t'']])
   \<and> SelectMimeType_run [''B''] ''html''
     (Document [] [Element ''container'' [(''nb_element'', PStr ''cell_code_output'')]
        [Element ''container'' [(''nb_element'', PStr ''mime_bundle'')]
          [Element ''container'' [(''mime_type'', PStr ''B'')] [Text ''b'']]]])
     = Inr ([], Document [] [Element ''container'' [(''nb_element'', PStr ''cell_code_output'')] [Text ''b'']])
   \<and> SelectMimeType_run [''A''] ''latex''
     (Document [] [Element ''container'' [(''nb_element'', PStr ''cell_code_output'')] [Text ''b'']])
     = Inr ([], Document [] [Element ''container'' [(''nb_element'', PStr ''cell_code_output'')] [Text ''b'']])"
proof -
  let ?doc = "Document [] [Element ''container'' [(''nb_element'', PStr ''cell_code_output'')]
        [Element ''container'' [(''nb_element'', PStr ''mime_bundle'')]
          [Element ''container'' [(''mime_type'', PStr ''B'')] [Text ''b'']]]]"
  let ?doc' = "Document [] [Element ''container'' [(''nb_element'', PStr ''cell_code_output'')] [Text ''b'']]"
  have none: "findall_document condition (Document [] [Element ''section'' [] [Text ''t'']]) = []"
    by (simp add: findall_document_def condition_def)
  have wf: "well_formed_document ?doc"
    by (simp add: well_formed_document_def condition_def dict_get_def)
  have run: "SelectMimeType_run [''B''] ''html'' ?doc = Inr ([], ?doc')"
    by (simp add: SelectMimeType_run_def condition_def dict_get_def dict_item_def process_bundle_def
        loses_attribute_def basic_attributes_def)
  from select_mime_type_idempotent
    [where doc = "Document [] [Element ''section'' [] [Text ''t'']]"
      and priority_list = "[''B'']" and bname = "''html''" and ws = "[]"
      and doc' = ?doc' and priority_list' = "[''A'']" and bname' = "''latex''"] none
  have one: "SelectMimeType_run [''B''] ''html'' (Document [] [Element ''section'' [] [Text ''t'']])
     = Inr ([], Document [] [Element ''section'' [] [Text ''t'']])"
    by blast
  from select_mime_type_idempotent
    [where doc = ?doc and priority_list = "[''B'']" and bname = "''html''" and ws = "[]"
      and doc' = ?doc' and priority_list' = "[''A'']" and bname' = "''latex''"] wf run
  have two: "SelectMimeType_run [''A''] ''latex'' ?doc' = Inr ([], ?doc')"
    by blast
  from one run two show ?thesis by simp
qed

section \<open>Cell-level render configuration (SphinxNbRenderer.get_cell_render_config)\<close>

text \<open>
  Modelled from the spec: the class \<^verbatim>\<open>NbParserConfig\<close> (module
  \<^verbatim>\<open>myst_nb.core.config\<close>) is not part of this module. The model keeps the two
  attributes the module reads, and takes \<^verbatim>\<open>nb_config[name]\<close>, the value of the global
  configuration under a name, as the function \<open>config_item\<close>.
\<close>

record nb_config =
  cell_render_key :: string
  metadata_key :: string
  config_item :: "string \<Rightarrow> error + pyval"

text \<open>
  The method reads \<^verbatim>\<open>self.nb_config\<close> and its arguments and assigns to nothing: it has
  no state among its results. \<open>nb_key\<close> is \<open>None\<close> or the notebook-level key, and
  \<open>has_nb_key\<close> allows the notebook-level lookup.
\<close>

definition get_cell_render_config ::
  "nb_config \<Rightarrow> pydict \<Rightarrow> string \<Rightarrow> string option \<Rightarrow> bool \<Rightarrow> error + pyval" where
  "get_cell_render_config cfg cell_metadata key nb_key has_nb_key =
     (let cell_metadata_key = cell_render_key cfg in
      case (case map_of cell_metadata cell_metadata_key of
              None \<Rightarrow> Inr True
            | Some ns \<Rightarrow> (case py_in key ns of Inl e \<Rightarrow> Inl e | Inr b \<Rightarrow> Inr (\<not> b))) of
        Inl e \<Rightarrow> Inl e
      | Inr True \<Rightarrow>
          if \<not> has_nb_key then Inl (KeyError key)
          else config_item cfg (case nb_key of None \<Rightarrow> key | Some k \<Rightarrow> k)
      | Inr False \<Rightarrow>
          (case dict_item cell_metadata cell_metadata_key of
             Inl e \<Rightarrow> Inl e
           | Inr ns \<Rightarrow> py_item ns key))"

lemma map_of_mem_fst: "(k \<in> fst ` set d) = (map_of d k \<noteq> None)"
  by (simp add: map_of_eq_None_iff)

text \<open>
  Claim C5. When the cell metadata holds a mapping under the namespace key and that
  mapping has the key, the lookup returns the value stored there, as it is. When the
  namespace key is absent, or its mapping does not have the key, the lookup raises
  \<^verbatim>\<open>KeyError(key)\<close> if the notebook-level lookup is not allowed, and otherwise returns
  what the global configuration gives for the notebook-level key, or for the key itself
  when no notebook-level key is given. (The lookup is a function of the configuration
  and its arguments; it returns a value and no changed metadata or configuration.)
\<close>

theorem get_cell_render_config_lookup:
  "(map_of cell_metadata (cell_render_key cfg) = Some (PDict ns) \<and> map_of ns key = Some v \<longrightarrow>
      get_cell_render_config cfg cell_metadata key nb_key has_nb_key = Inr v)
   \<and> (map_of cell_metadata (cell_render_key cfg) = None \<or>
        map_of cell_metadata (cell_render_key cfg) = Some (PDict ns) \<and> map_of ns key = None \<longrightarrow>
      get_cell_render_config cfg cell_metadata key nb_key has_nb_key =
        (if \<not> has_nb_key then Inl (KeyError key)
         else config_item cfg (case nb_key of None \<Rightarrow> key | Some k \<Rightarrow> k)))"
proof (intro conjI impI)
  assume "map_of cell_metadata (cell_render_key cfg) = Some (PDict ns) \<and> map_of ns key = Some v"
  then show "get_cell_render_config cfg cell_metadata key nb_key has_nb_key = Inr v"
    by (simp add: get_cell_render_config_def dict_item_def map_of_mem_fst)
next
  assume "map_of cell_metadata (cell_render_key cfg) = None \<or>
    map_of cell_metadata (cell_render_key cfg) = Some (PDict ns) \<and> map_of ns key = None"
  then show "get_cell_render_config cfg cell_metadata key nb_key has_nb_key =
    (if \<not> has_nb_key then Inl (KeyError key)
     else config_item cfg (case nb_key of None \<Rightarrow> key | Some k \<Rightarrow> k))"
    by (auto simp: get_cell_render_config_def map_of_mem_fst)
qed

theorem get_cell_render_config_lookup_witness:
  "get_cell_render_config
     \<lparr>cell_render_key = ''render'', metadata_key = ''mystnb'',
      config_item = (\<lambda>k. if k = ''remove_code_source'' then Inr (PBool False) else Inl (KeyError k))\<rparr>
     [(''tags'', PList []), (''render'', PDict [(''number_source_lines'', PStr ''yes'')])]
     ''number_source_lines'' None True = Inr (PStr ''yes'')
   \<and> get_cell_render_config
     \<lparr>cell_render_key = ''render'', metadata_key = ''mystnb'',
      config_item = (\<lambda>k. if k = ''remove_code_source'' then Inr (PBool False) else Inl (KeyError k))\<rparr>
     [(''tags'', PList []), (''render'', PDict [(''number_source_lines'', PStr ''yes'')])]
     ''figure'' None False = Inl (KeyError ''figure'')
   \<and> get_cell_render_config
     \<lparr>cell_render_key = ''render'', metadata_key = ''mystnb'',
      config_item = (\<lambda>k. if k = ''remove_code_source'' then Inr (PBool False) else Inl (KeyError k))\<rparr>
     [(''tags'', PList [])]
     ''remove_input'' (Some ''remove_code_source'') True = Inr (PBool False)"
  using get_cell_render_config_lookup
    [where cfg = "\<lparr>cell_render_key = ''render'', metadata_key = ''mystnb'',
      config_item = (\<lambda>k. if k = ''remove_code_source'' then Inr (PBool False) else Inl (KeyError k))\<rparr>"
      and cell_metadata = "[(''tags'', PList []), (''render'', PDict [(''number_source_lines'', PStr ''yes'')])]"
      and ns = "[(''number_source_lines'', PStr ''yes'')]" and key = "''number_source_lines''"
      and v = "PStr ''yes''" and nb_key = None and has_nb_key = True]
    get_cell_render_config_lookup
    [where cfg = "\<lparr>cell_render_key = ''render'', metadata_key = ''mystnb'',
      config_item = (\<lambda>k. if k = ''remove_code_source'' then Inr (PBool False) else Inl (KeyError k))\<rparr>"
      and cell_metadata = "[(''tags'', PList []), (''render'', PDict [(''number_source_lines'', PStr ''yes'')])]"
      and ns = "[(''number_source_lines'', PStr ''yes'')]" and key = "''figure''"
      and nb_key = None and has_nb_key = False]
    get_cell_render_config_lookup
    [where cfg = "\<lparr>cell_render_key = ''render'', metadata_key = ''mystnb'',
      config_item = (\<lambda>k. if k = ''remove_code_source'' then Inr (PBool False) else Inl (KeyError k))\<rparr>"
      and cell_metadata = "[(''tags'', PList [])]"
      and key = "''remove_input''" and nb_key = "Some ''remove_code_source''" and has_nb_key = True]
  by simp

section \<open>The tree builder (SphinxNbRenderer)\<close>

text \<open>
  An output of a code cell, by its \<^verbatim>\<open>output_type\<close>: a stream with its name and text,
  an error, display data or an execute result with the \<^verbatim>\<open>data\<close> dictionary (mime type
  to payload, in insertion order) and the optional \<^verbatim>\<open>metadata\<close>, or an output of some
  other type.
\<close>

datatype nb_output =
    Stream string string
  | ErrorOutput string string "string list"
  | DisplayData pydict "pydict option"
  | ExecuteResult pydict "pydict option"
  | OtherOutput string

text \<open>The argument of the plugin's \<^verbatim>\<open>render_mime_type\<close> (class \<^verbatim>\<open>MimeData\<close>).\<close>

record mime_data =
  md_mime_type :: string
  md_content :: pyval
  md_cell_metadata :: pydict
  md_output_metadata :: pydict
  md_cell_index :: nat
  md_output_index :: nat
  md_line :: int

text \<open>
  The render-element plugin (\<^verbatim>\<open>self.nb_renderer\<close>, class \<^verbatim>\<open>NbElementRenderer\<close>) is
  selected by name at build time and defined outside this module; its methods are
  parameters of the model.
\<close>

record nb_element_renderer =
  render_stdout :: "nb_output \<Rightarrow> pydict \<Rightarrow> nat \<Rightarrow> int \<Rightarrow> node list"
  render_stderr :: "nb_output \<Rightarrow> pydict \<Rightarrow> nat \<Rightarrow> int \<Rightarrow> node list"
  render_error :: "nb_output \<Rightarrow> pydict \<Rightarrow> nat \<Rightarrow> int \<Rightarrow> node list"
  render_mime_type :: "mime_data \<Rightarrow> node list"
  plugin_render_nb_metadata :: "pydict \<Rightarrow> pydict"

text \<open>
  The renderer itself: its configuration, its plugin, and the operations it inherits
  from the markdown renderer or imports. \<open>create_highlighted_code_block\<close> takes the
  source text, the lexer, the \<^verbatim>\<open>number_lines\<close> value and the line;
  \<open>create_figure_context\<close> takes the figure options, the line and the nodes added to
  the current node inside the context, and gives the nodes the enclosing node receives;
  \<open>create_warning\<close> gives the nodes that a warning adds to the current node.
\<close>

record sphinx_nb_renderer =
  nb_config :: nb_config
  nb_renderer :: nb_element_renderer
  create_highlighted_code_block :: "string \<Rightarrow> string option \<Rightarrow> pyval \<Rightarrow> int \<Rightarrow> node"
  create_figure_context :: "pyval option \<Rightarrow> int \<Rightarrow> node list \<Rightarrow> node list"
  create_warning :: "string \<Rightarrow> int \<Rightarrow> node list"

text \<open>
  The token of a code cell with what the renderer reads from it: \<^verbatim>\<open>meta["index"]\<close>,
  \<^verbatim>\<open>meta["metadata"]\<close>, \<^verbatim>\<open>meta["execution_count"]\<close>, the source text, the lexer,
  the line, and the outputs of the notebook's cell of that index.
\<close>

record code_cell =
  cell_index :: nat
  cell_metadata :: pydict
  execution_count :: pyval
  cell_content :: string
  cell_lexer :: "string option"
  cell_line :: int
  cell_outputs :: "nb_output list"

subsection \<open>Outputs of a code cell (render\_nb\_cell\_code\_outputs)\<close>

text \<open>
  The loop over \<^verbatim>\<open>output["data"].items()\<close>, with the mime bundle as the current node:
  each pair gets a container tagged with its mime type, which receives the nodes of the
  plugin and is appended to the bundle when it has children.
\<close>

fun render_mime_containers ::
  "sphinx_nb_renderer \<Rightarrow> code_cell \<Rightarrow> nat \<Rightarrow> pydict \<Rightarrow> pydict \<Rightarrow> node \<Rightarrow> node" where
  "render_mime_containers self cell output_index output_metadata [] mime_bundle = mime_bundle"
| "render_mime_containers self cell output_index output_metadata ((mime_type, data) # items) mime_bundle =
     (let mime_container = container [(''mime_type'', PStr mime_type)];
          nodes = render_mime_type (nb_renderer self)
                    \<lparr>md_mime_type = mime_type, md_content = data,
                     md_cell_metadata = cell_metadata cell,
                     md_output_metadata = output_metadata,
                     md_cell_index = cell_index cell,
                     md_output_index = output_index,
                     md_line = cell_line cell\<rparr>;
          mime_container = node_extend mime_container nodes;
          mime_bundle = (if children mime_container \<noteq> [] then node_append mime_bundle mime_container
                         else mime_bundle)
      in render_mime_containers self cell output_index output_metadata items mime_bundle)"

text \<open>
  The body of the figure context: the bundle is created, filled, and appended to the
  current node when it has children. The result is the nodes the current node receives.
\<close>

definition render_mime_bundle ::
  "sphinx_nb_renderer \<Rightarrow> code_cell \<Rightarrow> nat \<Rightarrow> pydict \<Rightarrow> pydict option \<Rightarrow> node list" where
  "render_mime_bundle self cell output_index data metadata =
     (let mime_bundle = container [(''nb_element'', PStr ''mime_bundle'')];
          mime_bundle = render_mime_containers self cell output_index
                          (case metadata of None \<Rightarrow> [] | Some m \<Rightarrow> m) data mime_bundle
      in if children mime_bundle \<noteq> [] then [mime_bundle] else [])"

text \<open>
  The \<^verbatim>\<open>figure\<close> option of the cell, looked up without the notebook level; only a
  \<^verbatim>\<open>KeyError\<close> is suppressed.
\<close>

definition figure_options :: "sphinx_nb_renderer \<Rightarrow> code_cell \<Rightarrow> error + pyval option" where
  "figure_options self cell =
     (case get_cell_render_config (nb_config self) (cell_metadata cell) ''figure'' None False of
        Inl (KeyError k) \<Rightarrow> Inr None
      | Inl e \<Rightarrow> Inl e
      | Inr v \<Rightarrow> Inr (Some v))"

text \<open>One round of the loop over the outputs: the nodes the current node receives.\<close>

fun render_output :: "sphinx_nb_renderer \<Rightarrow> code_cell \<Rightarrow> nat \<Rightarrow> nb_output \<Rightarrow> error + node list" where
  "render_output self cell output_index (Stream name text) =
     (if name = ''stdout'' then
        Inr (render_stdout (nb_renderer self) (Stream name text) (cell_metadata cell)
               (cell_index cell) (cell_line cell))
      else if name = ''stderr'' then
        Inr (render_stderr (nb_renderer self) (Stream name text) (cell_metadata cell)
               (cell_index cell) (cell_line cell))
      else Inr [])"
| "render_output self cell output_index (ErrorOutput ename evalue traceback) =
     Inr (render_error (nb_renderer self) (ErrorOutput ename evalue traceback) (cell_metadata cell)
            (cell_index cell) (cell_line cell))"
| "render_output self cell output_index (DisplayData data metadata) =
     (case figure_options self cell of
        Inl e \<Rightarrow> Inl e
      | Inr fig \<Rightarrow>
          Inr (create_figure_context self fig (cell_line cell)
                 (render_mime_bundle self cell output_index data metadata)))"
| "render_output self cell output_index (ExecuteResult data metadata) =
     (case figure_options self cell of
        Inl e \<Rightarrow> Inl e
      | Inr fig \<Rightarrow>
          Inr (create_figure_context self fig (cell_line cell)
                 (render_mime_bundle self cell output_index data metadata)))"
| "render_output self cell output_index (OtherOutput output_type) =
     Inr (create_warning self (''Unsupported output type: '' @ output_type) (cell_line cell))"

fun render_outputs_from ::
  "sphinx_nb_renderer \<Rightarrow> code_cell \<Rightarrow> nat \<Rightarrow> nb_output list \<Rightarrow> error + node list" where
  "render_outputs_from self cell output_index [] = Inr []"
| "render_outputs_from self cell output_index (out # outs) =
     (case render_output self cell output_index out of
        Inl e \<Rightarrow> Inl e
      | Inr ns \<Rightarrow>
          (case render_outputs_from self cell (Suc output_index) outs of
             Inl e \<Rightarrow> Inl e
           | Inr ms \<Rightarrow> Inr (ns @ ms)))"

definition render_nb_cell_code_outputs :: "sphinx_nb_renderer \<Rightarrow> code_cell \<Rightarrow> error + node list" where
  "render_nb_cell_code_outputs self cell = render_outputs_from self cell 0 (cell_outputs cell)"

subsection \<open>A code cell (render\_nb\_cell\_code)\<close>

text \<open>
  \<^verbatim>\<open>cfg_value or (a in tags) or (b in tags)\<close>, as the conditions that follow test it:
  the tags are not looked at when the configuration value is true.
\<close>

definition remove_flag :: "sphinx_nb_renderer \<Rightarrow> code_cell \<Rightarrow> string \<Rightarrow> string \<Rightarrow> string \<Rightarrow> error + bool" where
  "remove_flag self cell key tag_a tag_b =
     (let tags = dict_get (cell_metadata cell) ''tags'' (PList []) in
      case get_cell_render_config (nb_config self) (cell_metadata cell) key None True of
        Inl e \<Rightarrow> Inl e
      | Inr v \<Rightarrow>
          if truthy v then Inr True
          else (case py_in tag_a tags of
                  Inl e \<Rightarrow> Inl e
                | Inr True \<Rightarrow> Inr True
                | Inr False \<Rightarrow> py_in tag_b tags))"

definition remove_input :: "sphinx_nb_renderer \<Rightarrow> code_cell \<Rightarrow> error + bool" where
  "remove_input self cell = remove_flag self cell ''remove_code_source'' ''remove_input'' ''remove-input''"

definition remove_output :: "sphinx_nb_renderer \<Rightarrow> code_cell \<Rightarrow> error + bool" where
  "remove_output self cell = remove_flag self cell ''remove_code_outputs'' ''remove_output'' ''remove-output''"

text \<open>\<^verbatim>\<open>f"tag_{tag.replace(' ', '_')}"\<close> for every tag.\<close>

fun tag_class :: "pyval \<Rightarrow> error + pyval" where
  "tag_class (PStr tag) = Inr (PStr (''tag_'' @ map (\<lambda>c. if c = CHR '' '' then CHR ''_'' else c) tag))"
| "tag_class v = Inl (AttributeError ''replace'')"

fun tag_classes :: "pyval list \<Rightarrow> error + pyval list" where
  "tag_classes [] = Inr []"
| "tag_classes (tag # tags) =
     (case tag_class tag of
        Inl e \<Rightarrow> Inl e
      | Inr c \<Rightarrow> (case tag_classes tags of Inl e \<Rightarrow> Inl e | Inr cs \<Rightarrow> Inr (c # cs)))"

text \<open>\<^verbatim>\<open>render_nb_cell_code_source\<close>: the highlighted code block of the source.\<close>

definition render_nb_cell_code_source :: "sphinx_nb_renderer \<Rightarrow> code_cell \<Rightarrow> error + node list" where
  "render_nb_cell_code_source self cell =
     (case get_cell_render_config (nb_config self) (cell_metadata cell) ''number_source_lines'' None True of
        Inl e \<Rightarrow> Inl e
      | Inr number_lines \<Rightarrow>
          Inr [create_highlighted_code_block self (cell_content cell) (cell_lexer cell)
                 number_lines (cell_line cell)])"

text \<open>
  \<^verbatim>\<open>render_nb_cell_code\<close>: the nodes the current node receives, none after the early
  return and the cell container otherwise.
\<close>

definition render_nb_cell_code :: "sphinx_nb_renderer \<Rightarrow> code_cell \<Rightarrow> error + node list" where
  "render_nb_cell_code self cell =
     (let tags = dict_get (cell_metadata cell) ''tags'' (PList []) in
      case remove_input self cell of
        Inl e \<Rightarrow> Inl e
      | Inr rm_input \<Rightarrow>
      case remove_output self cell of
        Inl e \<Rightarrow> Inl e
      | Inr rm_output \<Rightarrow>
      if rm_input \<and> rm_output then Inr []
      else
      case py_iter tags of
        Inl e \<Rightarrow> Inl e
      | Inr tag_list \<Rightarrow>
      case tag_classes tag_list of
        Inl e \<Rightarrow> Inl e
      | Inr tag_cls \<Rightarrow>
      let cell_container = container
            [(''nb_element'', PStr ''cell_code''),
             (''cell_index'', PInt (int (cell_index cell))),
             (''exec_count'', execution_count cell),
             (''cell_metadata'', PDict (cell_metadata cell)),
             (''classes'', PList (PStr ''cell'' # tag_cls))] in
      case (if \<not> rm_input then
              (case render_nb_cell_code_source self cell of
                 Inl e \<Rightarrow> Inl e
               | Inr ns \<Rightarrow>
                   Inr [node_extend
                          (container [(''nb_element'', PStr ''cell_code_source''),
                                      (''classes'', PList [PStr ''cell_input''])]) ns])
            else Inr []) of
        Inl e \<Rightarrow> Inl e
      | Inr cell_input \<Rightarrow>
      case (if \<not> rm_output \<and> cell_outputs cell \<noteq> [] then
              (case render_nb_cell_code_outputs self cell of
                 Inl e \<Rightarrow> Inl e
               | Inr ns \<Rightarrow>
                   Inr [node_extend
                          (container [(''nb_element'', PStr ''cell_code_output''),
                                      (''classes'', PList [PStr ''cell_output''])]) ns])
            else Inr []) of
        Inl e \<Rightarrow> Inl e
      | Inr cell_output \<Rightarrow>
      Inr [node_extend cell_container (cell_input @ cell_output)])"

subsection \<open>Example inputs\<close>

text \<open>
  A plugin that renders only \<^verbatim>\<open>text/plain\<close>, a renderer with the cell namespace
  \<^verbatim>\<open>render\<close> whose global options are all false, and two code cells.
\<close>

definition example_plugin :: nb_element_renderer where
  "example_plugin =
     \<lparr>render_stdout = (\<lambda>out md i l. [Text ''stdout'']),
      render_stderr = (\<lambda>out md i l. [Text ''stderr'']),
      render_error = (\<lambda>out md i l. [Text ''error'']),
      render_mime_type = (\<lambda>d. if md_mime_type d = ''text/plain'' then [Text ''plain''] else []),
      plugin_render_nb_metadata = (\<lambda>m. dict_pop m ''kernelspec'')\<rparr>"

definition example_renderer :: sphinx_nb_renderer where
  "example_renderer =
     \<lparr>nb_config = \<lparr>cell_render_key = ''render'', metadata_key = ''mystnb'',
                   config_item = (\<lambda>k. Inr (PBool False))\<rparr>,
      nb_renderer = example_plugin,
      create_highlighted_code_block = (\<lambda>src lexer number_lines l. Element ''literal_block'' [] [Text src]),
      create_figure_context = (\<lambda>fig l ns. ns),
      create_warning = (\<lambda>msg l. [Element ''system_message'' [] [Text msg]])\<rparr>"

definition example_cell :: "pyval list \<Rightarrow> code_cell" where
  "example_cell tags =
     \<lparr>cell_index = 0, cell_metadata = [(''tags'', PList tags)], execution_count = PInt 1,
      cell_content = ''1 + 1'', cell_lexer = None, cell_line = 1,
      cell_outputs = [ExecuteResult [(''image/png'', PStr ''iVBOR''), (''text/plain'', PStr ''2'')] None]\<rparr>"

subsection \<open>Properties of the tree builder\<close>

text \<open>
  The mime containers of an output as the specification words them: for every pair of
  the data, in order, the container tagged with the mime type and holding the nodes
  the plugin renders for it, without the containers whose rendering is empty.
\<close>

definition rendered_mime_type ::
  "sphinx_nb_renderer \<Rightarrow> code_cell \<Rightarrow> nat \<Rightarrow> pydict option \<Rightarrow> string \<times> pyval \<Rightarrow> node list" where
  "rendered_mime_type self cell output_index metadata item =
     render_mime_type (nb_renderer self)
       \<lparr>md_mime_type = fst item, md_content = snd item,
        md_cell_metadata = cell_metadata cell,
        md_output_metadata = (case metadata of None \<Rightarrow> [] | Some m \<Rightarrow> m),
        md_cell_index = cell_index cell,
        md_output_index = output_index,
        md_line = cell_line cell\<rparr>"

definition spec_mime_containers ::
  "sphinx_nb_renderer \<Rightarrow> code_cell \<Rightarrow> nat \<Rightarrow> pydict \<Rightarrow> pydict option \<Rightarrow> node list" where
  "spec_mime_containers self cell output_index data metadata =
     map (\<lambda>item. Element ''container'' [(''mime_type'', PStr (fst item))]
                   (rendered_mime_type self cell output_index metadata item))
       (filter (\<lambda>item. rendered_mime_type self cell output_index metadata item \<noteq> []) data)"

lemma render_mime_containers_children:
  "render_mime_containers self cell k (case metadata of None \<Rightarrow> [] | Some m \<Rightarrow> m) items
     (Element t a ks) =
   Element t a (ks @ spec_mime_containers self cell k items metadata)"
proof (induction items arbitrary: ks)
  case Nil
  show ?case by (simp add: spec_mime_containers_def)
next
  case (Cons item items)
  obtain mime_type data where item: "item = (mime_type, data)"
    by (cases item)
  show ?case
    by (simp add: item Cons.IH spec_mime_containers_def rendered_mime_type_def container_def
        node_append_def Let_def)
qed

text \<open>
  Claim C1. For a display-data or execute-result output the renderer passes to the
  figure context what \<open>render_mime_bundle\<close> gives, which is at most one node: nothing
  when no mime type of the data renders to any node, and otherwise one container with
  \<^verbatim>\<open>nb_element = "mime_bundle"\<close> whose children are, in the order of the data, one
  container per pair whose rendering is not empty, tagged with the mime type of the
  pair and holding the nodes the plugin's \<^verbatim>\<open>render_mime_type\<close> returns for it.
\<close>

theorem render_mime_bundle_containers:
  "render_mime_bundle self cell output_index data metadata =
     (if spec_mime_containers self cell output_index data metadata = [] then []
      else [Element ''container'' [(''nb_element'', PStr ''mime_bundle'')]
              (spec_mime_containers self cell output_index data metadata)])
   \<and> length (render_mime_bundle self cell output_index data metadata) \<le> 1
   \<and> length (spec_mime_containers self cell output_index data metadata) \<le> length data
   \<and> render_output self cell output_index (DisplayData data metadata) =
       (case figure_options self cell of
          Inl e \<Rightarrow> Inl e
        | Inr fig \<Rightarrow>
            Inr (create_figure_context self fig (cell_line cell)
                   (render_mime_bundle self cell output_index data metadata)))
   \<and> render_output self cell output_index (ExecuteResult data metadata) =
       render_output self cell output_index (DisplayData data metadata)"
proof -
  have eq: "render_mime_bundle self cell output_index data metadata =
     (if spec_mime_containers self cell output_index data metadata = [] then []
      else [Element ''container'' [(''nb_element'', PStr ''mime_bundle'')]
              (spec_mime_containers self cell output_index data metadata)])"
    by (simp add: render_mime_bundle_def container_def render_mime_containers_children)
  have "length (spec_mime_containers self cell output_index data metadata) \<le> length data"
    by (simp add: spec_mime_containers_def)
  moreover from eq have "length (render_mime_bundle self cell output_index data metadata) \<le> 1"
    by simp
  ultimately show ?thesis
    using eq by simp
qed

theorem render_mime_bundle_containers_witness:
  "render_mime_bundle example_renderer (example_cell []) 0
     [(''image/png'', PStr ''iVBOR''), (''text/plain'', PStr ''2'')] None =
     [Element ''container'' [(''nb_element'', PStr ''mime_bundle'')]
        [Element ''container'' [(''mime_type'', PStr ''text/plain'')] [Text ''plain'']]]
   \<and> render_mime_bundle example_renderer (example_cell []) 0 [(''image/png'', PStr ''iVBOR'')] None = []"
  using render_mime_bundle_containers
    [where self = example_renderer and cell = "example_cell []" and output_index = 0
      and data = "[(''image/png'', PStr ''iVBOR''), (''text/plain'', PStr ''2'')]" and metadata = None]
    render_mime_bundle_containers
    [where self = example_renderer and cell = "example_cell []" and output_index = 0
      and data = "[(''image/png'', PStr ''iVBOR'')]" and metadata = None]
  by (simp add: spec_mime_containers_def rendered_mime_type_def example_renderer_def
      example_plugin_def example_cell_def)

lemma remove_flag_list:
  assumes "dict_get (cell_metadata cell) ''tags'' (PList []) = PList tags"
    and "get_cell_render_config (nb_config self) (cell_metadata cell) key None True = Inr v"
  shows "remove_flag self cell key tag_a tag_b =
           Inr (truthy v \<or> PStr tag_a \<in> set tags \<or> PStr tag_b \<in> set tags)"
  using assms by (auto simp: remove_flag_def Let_def split: bool.splits)

text \<open>
  Claim C4. For a code cell whose \<^verbatim>\<open>tags\<close> are a list, the remove-input flag is the
  truth value of the resolved \<^verbatim>\<open>remove_code_source\<close> or the presence of the tag
  \<^verbatim>\<open>remove_input\<close> or \<^verbatim>\<open>remove-input\<close>, and the remove-output flag is the truth value of
  the resolved \<^verbatim>\<open>remove_code_outputs\<close> or the presence of \<^verbatim>\<open>remove_output\<close> or
  \<^verbatim>\<open>remove-output\<close>. When both flags are true, rendering the cell adds no node; when
  they are not both true and rendering returns, it adds exactly one node, the cell
  container.
\<close>

theorem render_nb_cell_code_remove_flags:
  assumes tags: "dict_get (cell_metadata cell) ''tags'' (PList []) = PList tags"
    and src: "get_cell_render_config (nb_config self) (cell_metadata cell)
                ''remove_code_source'' None True = Inr src"
    and outs: "get_cell_render_config (nb_config self) (cell_metadata cell)
                ''remove_code_outputs'' None True = Inr outs"
  shows "remove_input self cell =
           Inr (truthy src \<or> PStr ''remove_input'' \<in> set tags \<or> PStr ''remove-input'' \<in> set tags)
       \<and> remove_output self cell =
           Inr (truthy outs \<or> PStr ''remove_output'' \<in> set tags \<or> PStr ''remove-output'' \<in> set tags)
       \<and> ((truthy src \<or> PStr ''remove_input'' \<in> set tags \<or> PStr ''remove-input'' \<in> set tags) \<and>
           (truthy outs \<or> PStr ''remove_output'' \<in> set tags \<or> PStr ''remove-output'' \<in> set tags) \<longrightarrow>
             render_nb_cell_code self cell = Inr [])
       \<and> (\<not> ((truthy src \<or> PStr ''remove_input'' \<in> set tags \<or> PStr ''remove-input'' \<in> set tags) \<and>
              (truthy outs \<or> PStr ''remove_output'' \<in> set tags \<or> PStr ''remove-output'' \<in> set tags)) \<and>
           render_nb_cell_code self cell = Inr ns \<longrightarrow>
             (\<exists>cls ks. ns = [Element ''container''
                                [(''nb_element'', PStr ''cell_code''),
                                 (''cell_index'', PInt (int (cell_index cell))),
                                 (''exec_count'', execution_count cell),
                                 (''cell_metadata'', PDict (cell_metadata cell)),
                                 (''classes'', PList (PStr ''cell'' # cls))] ks]))"
proof -
  have ri: "remove_input self cell =
      Inr (truthy src \<or> PStr ''remove_input'' \<in> set tags \<or> PStr ''remove-input'' \<in> set tags)"
    unfolding remove_input_def using tags src by (rule remove_flag_list)
  have ro: "remove_output self cell =
      Inr (truthy outs \<or> PStr ''remove_output'' \<in> set tags \<or> PStr ''remove-output'' \<in> set tags)"
    unfolding remove_output_def using tags outs by (rule remove_flag_list)
  show ?thesis
    apply (intro conjI impI)
       apply (rule ri)
      apply (rule ro)
     apply (simp add: render_nb_cell_code_def ri ro)
    apply (auto simp: render_nb_cell_code_def ri ro container_def dict_get_def
        split: sum.splits if_splits)
    done
qed

theorem render_nb_cell_code_remove_flags_witness:
  "render_nb_cell_code example_renderer (example_cell [PStr ''remove-input'', PStr ''remove_output'']) = Inr []
   \<and> render_nb_cell_code example_renderer (example_cell [PStr ''remove-input'']) =
       Inr [Element ''container''
              [(''nb_element'', PStr ''cell_code''), (''cell_index'', PInt 0), (''exec_count'', PInt 1),
               (''cell_metadata'', PDict [(''tags'', PList [PStr ''remove-input''])]),
               (''classes'', PList [PStr ''cell'', PStr ''tag_remove-input''])]
              [Element ''container''
                 [(''nb_element'', PStr ''cell_code_output''), (''classes'', PList [PStr ''cell_output''])]
                 [Element ''container'' [(''nb_element'', PStr ''mime_bundle'')]
                    [Element ''container'' [(''mime_type'', PStr ''text/plain'')] [Text ''plain'']]]]]"
proof -
  have cfg: "get_cell_render_config (nb_config example_renderer) (cell_metadata (example_cell tags))
      key None True = Inr (PBool False)" for tags key
    by (simp add: get_cell_render_config_def example_renderer_def example_cell_def)
  have tags: "dict_get (cell_metadata (example_cell tags)) ''tags'' (PList []) = PList tags" for tags
    by (simp add: dict_get_def example_cell_def)
  have "render_nb_cell_code example_renderer (example_cell [PStr ''remove-input'', PStr ''remove_output'']) = Inr []"
    using render_nb_cell_code_remove_flags
      [where self = example_renderer
        and cell = "example_cell [PStr ''remove-input'', PStr ''remove_output'']"
        and tags = "[PStr ''remove-input'', PStr ''remove_output'']"
        and src = "PBool False" and outs = "PBool False", OF tags cfg cfg]
    by simp
  moreover have "render_nb_cell_code example_renderer (example_cell [PStr ''remove-input'']) =
       Inr [Element ''container''
              [(''nb_element'', PStr ''cell_code''), (''cell_index'', PInt 0), (''exec_count'', PInt 1),
               (''cell_metadata'', PDict [(''tags'', PList [PStr ''remove-input''])]),
               (''classes'', PList [PStr ''cell'', PStr ''tag_remove-input''])]
              [Element ''container''
                 [(''nb_element'', PStr ''cell_code_output''), (''classes'', PList [PStr ''cell_output''])]
                 [Element ''container'' [(''nb_element'', PStr ''mime_bundle'')]
                    [Element ''container'' [(''mime_type'', PStr ''text/plain'')] [Text ''plain'']]]]]"
    by (simp add: render_nb_cell_code_def remove_input_def remove_output_def remove_flag_def cfg tags
        render_nb_cell_code_outputs_def figure_options_def render_mime_bundle_def container_def
        node_append_def get_cell_render_config_def example_renderer_def example_plugin_def
        example_cell_def dict_get_def)
  ultimately show ?thesis by simp
qed

section \<open>The per-document metadata store (NbMetadataCollector)\<close>

text \<open>
  The attributes the collector keeps on the build environment. Each may be missing
  (\<^verbatim>\<open>hasattr\<close> is false): \<^verbatim>\<open>nb_metadata\<close>, a \<^verbatim>\<open>defaultdict(dict)\<close> from document
  names to dictionaries, and the flag \<^verbatim>\<open>nb_new_exec_data\<close>.
\<close>

record sphinx_env =
  nb_metadata :: "(string \<rightharpoonup> pydict) option"
  nb_new_exec_data :: "bool option"

text \<open>
  What \<^verbatim>\<open>get_doc_data\<close> returns (the store, empty when the attribute was missing) and
  \<^verbatim>\<open>new_exec_data\<close> (\<^verbatim>\<open>getattr(env, "nb_new_exec_data", False)\<close>).
\<close>

definition get_doc_data :: "sphinx_env \<Rightarrow> (string \<rightharpoonup> pydict)" where
  "get_doc_data env = (case nb_metadata env of None \<Rightarrow> Map.empty | Some m \<Rightarrow> m)"

definition new_exec_data :: "sphinx_env \<Rightarrow> bool" where
  "new_exec_data env = (case nb_new_exec_data env of None \<Rightarrow> False | Some b \<Rightarrow> b)"

text \<open>
  The loop of \<^verbatim>\<open>merge_other\<close> over the document names, on the two stores.
  \<^verbatim>\<open>other_metadata[docname]\<close> reads a \<^verbatim>\<open>defaultdict(dict)\<close>: a missing entry is
  created empty in the other store, and that empty dictionary is what is assigned. The
  names are a Python set; the list is the order in which the loop happens to visit it.
\<close>

fun merge_docnames ::
  "string list \<Rightarrow> (string \<rightharpoonup> pydict) \<Rightarrow> (string \<rightharpoonup> pydict) \<Rightarrow>
   (string \<rightharpoonup> pydict) \<times> (string \<rightharpoonup> pydict)" where
  "merge_docnames [] env_metadata other_metadata = (env_metadata, other_metadata)"
| "merge_docnames (docname # docnames) env_metadata other_metadata =
     (case other_metadata docname of
        None \<Rightarrow> merge_docnames docnames (env_metadata(docname \<mapsto> [])) (other_metadata(docname \<mapsto> []))
      | Some entry \<Rightarrow> merge_docnames docnames (env_metadata(docname \<mapsto> entry)) other_metadata)"

text \<open>
  \<^verbatim>\<open>merge_other\<close>: the environment and the other environment afterwards. When the other
  environment has no \<^verbatim>\<open>nb_metadata\<close>, a fresh \<^verbatim>\<open>defaultdict\<close> stands in and the other
  environment stays as it was; reading its flag raises when it has none.
\<close>

definition merge_other ::
  "sphinx_env \<Rightarrow> string list \<Rightarrow> sphinx_env \<Rightarrow> error + (sphinx_env \<times> sphinx_env)" where
  "merge_other env docnames other =
     (let env_metadata = (case nb_metadata env of None \<Rightarrow> Map.empty | Some m \<Rightarrow> m);
          other_metadata = (case nb_metadata other of None \<Rightarrow> Map.empty | Some m \<Rightarrow> m);
          merged = merge_docnames docnames env_metadata other_metadata;
          env = env\<lparr>nb_metadata := Some (fst merged)\<rparr>;
          other' = (case nb_metadata other of
                      None \<Rightarrow> other
                    | Some m \<Rightarrow> other\<lparr>nb_metadata := Some (snd merged)\<rparr>)
      in case nb_new_exec_data other of
           None \<Rightarrow> Inl (AttributeError ''nb_new_exec_data'')
         | Some flag \<Rightarrow>
             Inr (if flag then env\<lparr>nb_new_exec_data := Some True\<rparr> else env, other'))"

text \<open>
  Modelled from the spec: the build system, which is not part of this module, combines
  the results of parallel workers by one call of \<^verbatim>\<open>merge_other\<close> per worker, each with
  the document names that worker read and its environment, one after the other.
\<close>

fun merge_workers :: "sphinx_env \<Rightarrow> (string list \<times> sphinx_env) list \<Rightarrow> error + sphinx_env" where
  "merge_workers env [] = Inr env"
| "merge_workers env ((docnames, other) # workers) =
     (case merge_other env docnames other of
        Inl e \<Rightarrow> Inl e
      | Inr (env', other') \<Rightarrow> merge_workers env' workers)"

text \<open>Example environments: the main one and two workers.\<close>

definition example_env :: sphinx_env where
  "example_env =
     \<lparr>nb_metadata = Some [''a'' \<mapsto> [(''exec_data'', PStr ''old'')], ''c'' \<mapsto> [(''glue'', PList [])]],
      nb_new_exec_data = Some False\<rparr>"

definition example_worker :: sphinx_env where
  "example_worker =
     \<lparr>nb_metadata = Some [''a'' \<mapsto> [(''exec_data'', PStr ''new'')]],
      nb_new_exec_data = Some True\<rparr>"

definition example_worker_empty :: sphinx_env where
  "example_worker_empty = \<lparr>nb_metadata = Some Map.empty, nb_new_exec_data = Some False\<rparr>"

lemma merge_docnames_env:
  "fst (merge_docnames docnames em om) =
     (\<lambda>d. if d \<in> set docnames then Some (case om d of None \<Rightarrow> [] | Some entry \<Rightarrow> entry) else em d)"
proof (induction docnames arbitrary: em om)
  case Nil
  show ?case by simp
next
  case (Cons docname docnames)
  show ?case
    by (cases "om docname") (auto simp: Cons.IH fun_eq_iff)
qed

lemma merge_docnames_other:
  "snd (merge_docnames docnames em om) =
     (\<lambda>d. if d \<in> set docnames \<and> om d = None then Some [] else om d)"
proof (induction docnames arbitrary: em om)
  case Nil
  show ?case by simp
next
  case (Cons docname docnames)
  show ?case
    by (cases "om docname") (auto simp: Cons.IH fun_eq_iff)
qed

lemma merge_other_result:
  assumes "nb_new_exec_data other = Some flag"
  shows "merge_other env docnames other =
     Inr (\<lparr>nb_metadata = Some (\<lambda>d. if d \<in> set docnames
                                     then Some (case get_doc_data other d of None \<Rightarrow> [] | Some entry \<Rightarrow> entry)
                                     else get_doc_data env d),
           nb_new_exec_data = (if flag then Some True else nb_new_exec_data env)\<rparr>,
          (case nb_metadata other of
             None \<Rightarrow> other
           | Some m \<Rightarrow> other\<lparr>nb_metadata :=
               Some (\<lambda>d. if d \<in> set docnames \<and> m d = None then Some [] else m d)\<rparr>))"
  using assms
  by (cases env; cases other)
    (auto simp: merge_other_def merge_docnames_env merge_docnames_other get_doc_data_def
      Let_def split: option.splits)

text \<open>
  Claim C6. When the other environment carries the flag, the merge returns; afterwards
  the store holds, for every document name of the set, the other store's entry (the
  empty dictionary when the other store had none) in place of whatever it held, and its
  own entry for every other name; the flag reads true exactly when it read true in the
  environment before or is true in the other one. Merging two workers' environments
  for disjoint sets of names gives the same environment in either order, and the order
  in which the names of one set are visited does not matter.
\<close>

theorem merge_other_replaces_and_commutes:
  "(nb_new_exec_data other = Some flag \<longrightarrow>
      (\<exists>env' other'. merge_other env docnames other = Inr (env', other') \<and>
         (\<forall>d. get_doc_data env' d =
                (if d \<in> set docnames
                 then Some (case get_doc_data other d of None \<Rightarrow> [] | Some entry \<Rightarrow> entry)
                 else get_doc_data env d)) \<and>
         new_exec_data env' = (new_exec_data env \<or> flag)))
   \<and> (set docnames = set docnames' \<longrightarrow>
        merge_other env docnames other = merge_other env docnames' other)
   \<and> (set docnames_a \<inter> set docnames_b = {} \<longrightarrow>
        merge_workers env [(docnames_a, other_a), (docnames_b, other_b)] =
        merge_workers env [(docnames_b, other_b), (docnames_a, other_a)])"
proof (intro conjI impI)
  assume "nb_new_exec_data other = Some flag"
  from merge_other_result [OF this, of env docnames]
  show "\<exists>env' other'. merge_other env docnames other = Inr (env', other') \<and>
         (\<forall>d. get_doc_data env' d =
                (if d \<in> set docnames
                 then Some (case get_doc_data other d of None \<Rightarrow> [] | Some entry \<Rightarrow> entry)
                 else get_doc_data env d)) \<and>
         new_exec_data env' = (new_exec_data env \<or> flag)"
    by (auto simp: get_doc_data_def new_exec_data_def split: option.splits)
next
  assume eq: "set docnames = set docnames'"
  have "merge_docnames docnames em om = merge_docnames docnames' em om" for em om
    by (simp add: prod_eq_iff merge_docnames_env merge_docnames_other eq)
  then show "merge_other env docnames other = merge_other env docnames' other"
    by (simp only: merge_other_def)
next
  assume disj: "set docnames_a \<inter> set docnames_b = {}"
  show "merge_workers env [(docnames_a, other_a), (docnames_b, other_b)] =
        merge_workers env [(docnames_b, other_b), (docnames_a, other_a)]"
  proof (cases "nb_new_exec_data other_a")
    case None
    then show ?thesis
      by (simp add: merge_other_def Let_def split: option.splits sum.splits prod.splits)
  next
    case f1: (Some f1)
    show ?thesis
    proof (cases "nb_new_exec_data other_b")
      case None
      then show ?thesis
        by (simp add: merge_other_def Let_def split: option.splits sum.splits prod.splits)
    next
      case f2: (Some f2)
      from disj have d: "d \<in> set docnames_a \<Longrightarrow> d \<notin> set docnames_b" for d
        by auto
      show ?thesis
        by (auto simp: merge_other_result [OF f1] merge_other_result [OF f2] get_doc_data_def
            fun_eq_iff dest: d)
    qed
  qed
qed

theorem merge_other_replaces_and_commutes_witness:
  "(\<exists>env' other'. merge_other example_env [''a''] example_worker = Inr (env', other') \<and>
      get_doc_data env' ''a'' = Some [(''exec_data'', PStr ''new'')] \<and>
      get_doc_data env' ''c'' = Some [(''glue'', PList [])] \<and>
      new_exec_data env')
   \<and> merge_other example_env [''a'', ''b''] example_worker =
       merge_other example_env [''b'', ''a'', ''a''] example_worker
   \<and> merge_workers example_env [([''a''], example_worker), ([''b''], example_worker_empty)] =
       merge_workers example_env [([''b''], example_worker_empty), ([''a''], example_worker)]"
proof -
  have flag: "nb_new_exec_data example_worker = Some True"
    by (simp add: example_worker_def)
  from merge_other_replaces_and_commutes
    [where other = example_worker and flag = True and env = example_env and docnames = "[''a'']"
      and docnames' = "[''a'']" and docnames_a = "[''a'']" and docnames_b = "[''b'']"
      and other_a = example_worker and other_b = example_worker_empty]
  obtain env' other' where m: "merge_other example_env [''a''] example_worker = Inr (env', other')"
    and d: "\<And>d. get_doc_data env' d =
                (if d \<in> set [''a'']
                 then Some (case get_doc_data example_worker d of None \<Rightarrow> [] | Some entry \<Rightarrow> entry)
                 else get_doc_data example_env d)"
    and n: "new_exec_data env' = (new_exec_data example_env \<or> True)"
    and w: "merge_workers example_env [([''a''], example_worker), ([''b''], example_worker_empty)] =
       merge_workers example_env [([''b''], example_worker_empty), ([''a''], example_worker)]"
    using flag by auto
  have a: "get_doc_data env' ''a'' = Some [(''exec_data'', PStr ''new'')]"
    using d [of "''a''"] by (simp add: get_doc_data_def example_worker_def)
  have c: "get_doc_data env' ''c'' = Some [(''glue'', PList [])]"
    using d [of "''c''"] by (simp add: get_doc_data_def example_env_def)
  have s: "set [''a'', ''b''] = set [''b'', ''a'', ''a'']"
    by auto
  have o: "merge_other example_env [''a'', ''b''] example_worker =
       merge_other example_env [''b'', ''a'', ''a''] example_worker"
    using merge_other_replaces_and_commutes
      [where env = example_env and docnames = "[''a'', ''b'']" and docnames' = "[''b'', ''a'', ''a'']"
        and other = example_worker, THEN conjunct2, THEN conjunct1] s
    by (rule mp)
  from m a c n o w show ?thesis by simp
qed

text \<open>
  Claim C10. When a document name of the set has no entry in the other store, the
  merge leaves the empty dictionary as the store's entry for that name, whatever the
  store held for it before; the other store, when it exists, gets the same empty entry.
\<close>

theorem merge_other_missing_entry:
  "d \<in> set docnames \<and> get_doc_data other d = None \<and> nb_new_exec_data other = Some flag \<longrightarrow>
     (\<exists>env' other'. merge_other env docnames other = Inr (env', other') \<and>
        get_doc_data env' d = Some [] \<and>
        (nb_metadata other = None \<and> other' = other \<or> get_doc_data other' d = Some []))"
proof
  assume a: "d \<in> set docnames \<and> get_doc_data other d = None \<and> nb_new_exec_data other = Some flag"
  then have flag: "nb_new_exec_data other = Some flag" by simp
  from a merge_other_result [OF flag, of env docnames]
  show "\<exists>env' other'. merge_other env docnames other = Inr (env', other') \<and>
        get_doc_data env' d = Some [] \<and>
        (nb_metadata other = None \<and> other' = other \<or> get_doc_data other' d = Some [])"
    by (auto simp: get_doc_data_def split: option.splits)
qed

theorem merge_other_missing_entry_witness:
  "\<exists>env' other'. merge_other example_env [''a''] example_worker_empty = Inr (env', other') \<and>
      get_doc_data example_env ''a'' = Some [(''exec_data'', PStr ''old'')] \<and>
      get_doc_data env' ''a'' = Some [] \<and> get_doc_data other' ''a'' = Some []"
  using merge_other_missing_entry
    [where d = "''a''" and docnames = "[''a'']" and other = example_worker_empty and flag = False
      and env = example_env]
  by (auto simp: get_doc_data_def example_worker_empty_def example_env_def)

section \<open>Notebook-level configuration overrides (Parser.parse)\<close>

text \<open>A record of the document logger: a warning or a debug message with its subtype.\<close>

datatype log_record = LogWarning string string | LogDebug string string

text \<open>
  The part of \<^verbatim>\<open>Parser.parse\<close> that updates the configuration with the notebook
  metadata, followed by the rest of the method. \<open>copy\<close> is \<^verbatim>\<open>NbParserConfig.copy\<close>,
  defined outside this module, which gives the new configuration or raises; \<open>Inl\<close>
  carries the text of the exception. \<open>continue\<close> is what the method does after the
  update (execution, rendering, writing of files) with the configuration then in force
  and the records logged so far. The value under the metadata key should be a mapping;
  \<^verbatim>\<open>overrides.pop("output_folder", None)\<close> raises outside the \<^verbatim>\<open>try\<close> on anything else.
\<close>

definition parse ::
  "(nb_config \<Rightarrow> pydict \<Rightarrow> string + nb_config) \<Rightarrow> (nb_config \<Rightarrow> log_record list \<Rightarrow> 'r) \<Rightarrow>
   nb_config \<Rightarrow> pydict \<Rightarrow> error + 'r" where
  "parse copy continue cfg notebook_metadata =
     (case map_of notebook_metadata (metadata_key cfg) of
        None \<Rightarrow> Inr (continue cfg [])
      | Some (PDict overrides) \<Rightarrow>
          (let overrides = dict_pop overrides ''output_folder'' in
           case copy cfg overrides of
             Inl exc \<Rightarrow>
               Inr (continue cfg
                      [LogWarning (''Failed to update configuration with notebook metadata: '' @ exc)
                         ''config''])
           | Inr cfg' \<Rightarrow>
               Inr (continue cfg'
                      [LogDebug ''Updated configuration with notebook metadata'' ''config'']))
      | Some (PList xs) \<Rightarrow> Inl TypeError
      | Some v \<Rightarrow> Inl (AttributeError ''pop''))"

text \<open>
  Claim C8. When the notebook metadata holds a mapping of overrides and applying it to
  the configuration raises, the method does not raise: it goes on with the original
  configuration, and exactly one record has been logged, a warning of subtype
  \<^verbatim>\<open>config\<close> that carries the text of the exception.
\<close>

theorem parse_override_failure_keeps_config:
  "map_of notebook_metadata (metadata_key cfg) = Some (PDict overrides) \<and>
   copy cfg (dict_pop overrides ''output_folder'') = Inl exc \<longrightarrow>
     parse copy continue cfg notebook_metadata =
       Inr (continue cfg
              [LogWarning (''Failed to update configuration with notebook metadata: '' @ exc)
                 ''config''])"
  by (simp add: parse_def)

theorem parse_override_failure_keeps_config_witness:
  "parse (\<lambda>c ov. if map_of ov ''execution_timeout'' = Some (PStr ''soon'') then Inl ''invalid'' else Inr c)
     (\<lambda>c logs. (cell_render_key c, logs))
     \<lparr>cell_render_key = ''render'', metadata_key = ''mystnb'', config_item = (\<lambda>k. Inl (KeyError k))\<rparr>
     [(''mystnb'', PDict [(''output_folder'', PStr ''x''), (''execution_timeout'', PStr ''soon'')])]
   = Inr (''render'',
          [LogWarning ''Failed to update configuration with notebook metadata: invalid'' ''config''])"
  using parse_override_failure_keeps_config
    [where notebook_metadata =
        "[(''mystnb'', PDict [(''output_folder'', PStr ''x''), (''execution_timeout'', PStr ''soon'')])]"
      and cfg = "\<lparr>cell_render_key = ''render'', metadata_key = ''mystnb'',
                  config_item = (\<lambda>k. Inl (KeyError k))\<rparr>"
      and overrides = "[(''output_folder'', PStr ''x''), (''execution_timeout'', PStr ''soon'')]"
      and copy = "\<lambda>c ov. if map_of ov ''execution_timeout'' = Some (PStr ''soon'') then Inl ''invalid'' else Inr c"
      and exc = "''invalid''" and continue = "\<lambda>c logs. (cell_render_key c, logs)"]
  by (simp add: dict_pop_def)

section \<open>Notebook metadata (SphinxNbRenderer.render\_nb\_metadata)\<close>

definition special_keys :: "string list" where
  "special_keys = [''kernelspec'', ''language_info'', ''source_map'']"

text \<open>
  The loop over the special keys. \<^verbatim>\<open>env.metadata\<close> is Sphinx's mapping from document
  names to dictionaries, a \<^verbatim>\<open>defaultdict(dict)\<close>: the entry of the document is created
  when it is first written.
\<close>

fun save_special_keys ::
  "string list \<Rightarrow> pydict \<Rightarrow> string \<Rightarrow> (string \<rightharpoonup> pydict) \<Rightarrow> (string \<rightharpoonup> pydict)" where
  "save_special_keys [] metadata docname env_metadata = env_metadata"
| "save_special_keys (key # keys) metadata docname env_metadata =
     save_special_keys keys metadata docname
       (if key \<in> fst ` set metadata then
          env_metadata(docname \<mapsto>
            dict_set (case env_metadata docname of None \<Rightarrow> [] | Some entry \<Rightarrow> entry)
              key (dict_get metadata key PNone))
        else env_metadata)"

text \<open>
  \<^verbatim>\<open>render_nb_metadata\<close>: the side store afterwards, and the content of the front
  matter token handed to \<^verbatim>\<open>render_front_matter\<close>.
\<close>

definition render_nb_metadata ::
  "nb_element_renderer \<Rightarrow> (string \<rightharpoonup> pydict) \<Rightarrow> string \<Rightarrow> pydict \<Rightarrow> (string \<rightharpoonup> pydict) \<times> pydict" where
  "render_nb_metadata plugin env_metadata docname token_meta =
     (let metadata = token_meta;
          env_metadata = save_special_keys special_keys metadata docname env_metadata;
          metadata = plugin_render_nb_metadata plugin metadata;
          top_matter = filter (\<lambda>kv. fst kv \<notin> set special_keys) metadata
      in (env_metadata, top_matter))"

text \<open>
  The order of the steps as the claim words it: the plugin first, then the special keys
  of what the plugin returned go to the side store, and the rest goes to the front
  matter.
\<close>

definition spec_render_nb_metadata ::
  "nb_element_renderer \<Rightarrow> (string \<rightharpoonup> pydict) \<Rightarrow> string \<Rightarrow> pydict \<Rightarrow> (string \<rightharpoonup> pydict) \<times> pydict" where
  "spec_render_nb_metadata plugin env_metadata docname token_meta =
     (let metadata = plugin_render_nb_metadata plugin token_meta;
          env_metadata = save_special_keys special_keys metadata docname env_metadata;
          top_matter = filter (\<lambda>kv. fst kv \<notin> set special_keys) metadata
      in (env_metadata, top_matter))"

lemma map_of_dict_set: "map_of (dict_set d k v) k' = (if k' = k then Some v else map_of d k')"
  by (induction d) auto

lemma save_special_keys_other_doc:
  "d \<noteq> docname \<Longrightarrow> save_special_keys keys metadata docname em d = em d"
  by (induction keys arbitrary: em) auto

lemma save_special_keys_entry:
  "map_of (case save_special_keys keys metadata docname em docname of None \<Rightarrow> [] | Some entry \<Rightarrow> entry) k =
     (if k \<in> set keys \<and> map_of metadata k \<noteq> None then map_of metadata k
      else map_of (case em docname of None \<Rightarrow> [] | Some entry \<Rightarrow> entry) k)"
proof (induction keys arbitrary: em)
  case Nil
  show ?case by simp
next
  case (Cons key keys)
  show ?case
    by (auto simp: Cons.IH map_of_dict_set dict_get_def map_of_mem_fst)
qed

text \<open>
  Claim C9 does not hold as it is worded: the special keys are saved from the metadata
  of the notebook before the plugin is called. With a plugin that drops
  \<^verbatim>\<open>kernelspec\<close>, the code stores the kernel specification and the order of the claim
  would store nothing.
\<close>

theorem render_nb_metadata_order_counterexample:
  "fst (render_nb_metadata example_plugin Map.empty ''doc''
          [(''kernelspec'', PStr ''python3''), (''title'', PStr ''T'')]) ''doc''
     = Some [(''kernelspec'', PStr ''python3'')]
   \<and> fst (spec_render_nb_metadata example_plugin Map.empty ''doc''
          [(''kernelspec'', PStr ''python3''), (''title'', PStr ''T'')]) ''doc''
     = None"
  by (simp add: render_nb_metadata_def spec_render_nb_metadata_def special_keys_def
      example_plugin_def dict_pop_def dict_get_def)

text \<open>
  Claim C9, amended. Rendering the notebook metadata saves the special keys
  \<^verbatim>\<open>kernelspec\<close>, \<^verbatim>\<open>language_info\<close> and \<^verbatim>\<open>source_map\<close> that the notebook's own
  metadata has into the document's entry of the side store (other entries of the store
  and other keys of the entry stay as they were), then lets the plugin transform the
  metadata, and hands the front matter exactly the pairs of the plugin's result whose
  key is not special, in their order.
\<close>

theorem render_nb_metadata_saves_then_forwards:
  "snd (render_nb_metadata plugin env_metadata docname token_meta) =
     filter (\<lambda>kv. fst kv \<notin> {''kernelspec'', ''language_info'', ''source_map''})
       (plugin_render_nb_metadata plugin token_meta)
   \<and> (\<forall>d. d \<noteq> docname \<longrightarrow>
         fst (render_nb_metadata plugin env_metadata docname token_meta) d = env_metadata d)
   \<and> (\<forall>k. map_of (case fst (render_nb_metadata plugin env_metadata docname token_meta) docname of
                      None \<Rightarrow> [] | Some entry \<Rightarrow> entry) k =
            (if k \<in> {''kernelspec'', ''language_info'', ''source_map''} \<and> map_of token_meta k \<noteq> None
             then map_of token_meta k
             else map_of (case env_metadata docname of None \<Rightarrow> [] | Some entry \<Rightarrow> entry) k))"
proof (intro conjI allI impI)
  show "snd (render_nb_metadata plugin env_metadata docname token_meta) =
     filter (\<lambda>kv. fst kv \<notin> {''kernelspec'', ''language_info'', ''source_map''})
       (plugin_render_nb_metadata plugin token_meta)"
    by (simp add: render_nb_metadata_def special_keys_def)
next
  fix d assume "d \<noteq> docname"
  then show "fst (render_nb_metadata plugin env_metadata docname token_meta) d = env_metadata d"
    by (simp add: render_nb_metadata_def save_special_keys_other_doc)
next
  fix k
  have "set special_keys = {''kernelspec'', ''language_info'', ''source_map''}"
    by (simp add: special_keys_def)
  with save_special_keys_entry [of special_keys token_meta docname env_metadata k]
  show "map_of (case fst (render_nb_metadata plugin env_metadata docname token_meta) docname of
                      None \<Rightarrow> [] | Some entry \<Rightarrow> entry) k =
            (if k \<in> {''kernelspec'', ''language_info'', ''source_map''} \<and> map_of token_meta k \<noteq> None
             then map_of token_meta k
             else map_of (case env_metadata docname of None \<Rightarrow> [] | Some entry \<Rightarrow> entry) k)"
    by (simp add: render_nb_metadata_def)
qed

theorem render_nb_metadata_saves_then_forwards_witness:
  "render_nb_metadata example_plugin [''other'' \<mapsto> [(''x'', PNone)]] ''doc''
     [(''kernelspec'', PStr ''python3''), (''title'', PStr ''T'')] =
     ([''other'' \<mapsto> [(''x'', PNone)], ''doc'' \<mapsto> [(''kernelspec'', PStr ''python3'')]],
      [(''title'', PStr ''T'')])"
proof -
  have "fst (render_nb_metadata example_plugin [''other'' \<mapsto> [(''x'', PNone)]] ''doc''
     [(''kernelspec'', PStr ''python3''), (''title'', PStr ''T'')]) ''other'' = Some [(''x'', PNone)]"
    using render_nb_metadata_saves_then_forwards
      [where plugin = example_plugin and env_metadata = "[''other'' \<mapsto> [(''x'', PNone)]]"
        and docname = "''doc''" and token_meta = "[(''kernelspec'', PStr ''python3''), (''title'', PStr ''T'')]"]
    by simp
  then show ?thesis
    by (simp add: render_nb_metadata_def special_keys_def example_plugin_def dict_pop_def
        dict_get_def fun_upd_twist)
qed

end
